theory Spec2Isabelle
  imports Main "HOL-Library.Word"
begin

section \<open>Machine types\<close>

text \<open>
  The sources are C for an LP64 little-endian target: \<open>uint8_t\<close>, \<open>uint16_t\<close>,
  \<open>uint32_t\<close> and \<open>uint64_t\<close> are words of that width, \<open>size_t\<close>, \<open>void *\<close> and
  \<open>CUdeviceptr\<close> (\<open>unsigned long long\<close>) are 64-bit words, and the null pointer is 0.
  Arithmetic on words wraps, as unsigned arithmetic in C does.
\<close>

type_synonym u8 = "8 word"
type_synonym u16 = "16 word"
type_synonym u32 = "32 word"
type_synonym u64 = "64 word"

section \<open>Platform constants\<close>

text \<open>
  The error numbers of \<open><errno.h>\<close> that the transport returns negated, with their
  Linux values. No theorem below depends on the values beyond their being positive.
\<close>

definition EAGAIN :: int where "EAGAIN = 11"
definition ENOMEM :: int where "ENOMEM = 12"
definition EINVAL :: int where "EINVAL = 22"
definition ENOSPC :: int where "ENOSPC = 28"
definition ENOTCONN :: int where "ENOTCONN = 107"

section \<open>Wire format (idm-protocol/idm.h)\<close>

definition IDM_MAGIC :: u32 where
  "IDM_MAGIC = 0x49444D00"

definition IDM_VERSION_MAJOR :: u16 where "IDM_VERSION_MAJOR = 1"
definition IDM_VERSION_MINOR :: u16 where "IDM_VERSION_MINOR = 0"

definition IDM_VERSION :: u16 where
  "IDM_VERSION = or (push_bit 8 IDM_VERSION_MAJOR) IDM_VERSION_MINOR"

definition IDM_MAX_PAYLOAD_SIZE :: u32 where
  "IDM_MAX_PAYLOAD_SIZE = 4 * 1024 * 1024"

definition IDM_RING_SIZE :: u32 where
  "IDM_RING_SIZE = 32"

text \<open>\<open>enum idm_msg_type\<close>, as the 16-bit values stored in \<open>header.msg_type\<close>.\<close>

definition IDM_GPU_ALLOC :: u16 where "IDM_GPU_ALLOC = 0x01"
definition IDM_GPU_FREE :: u16 where "IDM_GPU_FREE = 0x02"
definition IDM_GPU_COPY_H2D :: u16 where "IDM_GPU_COPY_H2D = 0x10"
definition IDM_GPU_COPY_D2H :: u16 where "IDM_GPU_COPY_D2H = 0x11"
definition IDM_GPU_COPY_D2D :: u16 where "IDM_GPU_COPY_D2D = 0x12"
definition IDM_GPU_MEMSET :: u16 where "IDM_GPU_MEMSET = 0x13"
definition IDM_GPU_LAUNCH_KERNEL :: u16 where "IDM_GPU_LAUNCH_KERNEL = 0x20"
definition IDM_GPU_SYNC :: u16 where "IDM_GPU_SYNC = 0x21"
definition IDM_GPU_GET_INFO :: u16 where "IDM_GPU_GET_INFO = 0x30"
definition IDM_GPU_GET_PROPS :: u16 where "IDM_GPU_GET_PROPS = 0x31"
definition IDM_RESPONSE_OK :: u16 where "IDM_RESPONSE_OK = 0xF0"
definition IDM_RESPONSE_ERROR :: u16 where "IDM_RESPONSE_ERROR = 0xF1"

text \<open>\<open>enum idm_error\<close>, as the 32-bit values stored in \<open>error_code\<close>.\<close>

definition IDM_ERROR_NONE :: u32 where "IDM_ERROR_NONE = 0"
definition IDM_ERROR_INVALID_MESSAGE :: u32 where "IDM_ERROR_INVALID_MESSAGE = 1"
definition IDM_ERROR_INVALID_HANDLE :: u32 where "IDM_ERROR_INVALID_HANDLE = 2"
definition IDM_ERROR_PERMISSION_DENIED :: u32 where "IDM_ERROR_PERMISSION_DENIED = 3"
definition IDM_ERROR_OUT_OF_MEMORY :: u32 where "IDM_ERROR_OUT_OF_MEMORY = 4"
definition IDM_ERROR_INVALID_SIZE :: u32 where "IDM_ERROR_INVALID_SIZE = 5"
definition IDM_ERROR_TIMEOUT :: u32 where "IDM_ERROR_TIMEOUT = 6"
definition IDM_ERROR_CONNECTION_LOST :: u32 where "IDM_ERROR_CONNECTION_LOST = 7"
definition IDM_ERROR_CUDA_ERROR :: u32 where "IDM_ERROR_CUDA_ERROR = 8"
definition IDM_ERROR_UNKNOWN :: u32 where "IDM_ERROR_UNKNOWN = 99"

record idm_header =
  magic :: u32
  version :: u16
  msg_type :: u16
  src_zone :: u32
  dst_zone :: u32
  seq_num :: u64
  payload_len :: u32
  reserved :: u32

text \<open>
  \<open>struct idm_message\<close>: the header and the bytes that follow it in memory. For a
  message on the heap these are the bytes of its buffer after the header; for a ring
  slot (\<open>struct idm_ring_entry\<close>, 4096 bytes) they are the 4064 bytes of the slot after
  the header, which the flexible array \<open>payload[]\<close> overlays.
\<close>

record idm_message =
  header :: idm_header
  payload :: "u8 list"

definition sizeof_idm_header :: u64 where
  "sizeof_idm_header = 32"

definition sizeof_idm_ring_entry :: u64 where
  "sizeof_idm_ring_entry = 4096"

text \<open>
  \<open>struct idm_ring\<close>. \<open>entries\<close> is the array of \<open>IDM_RING_SIZE\<close> slots, read and
  written only at indices taken modulo \<open>IDM_RING_SIZE\<close>. The two reserved words are
  never accessed and are left out.
\<close>

record idm_ring =
  producer :: u32
  consumer :: u32
  entries :: "u32 \<Rightarrow> idm_message"

definition idm_message_size :: "idm_message \<Rightarrow> u64" where
  "idm_message_size msg = sizeof_idm_header + ucast (payload_len (header msg))"

definition idm_message_valid :: "idm_message \<Rightarrow> bool" where
  "idm_message_valid msg \<longleftrightarrow>
     magic (header msg) = IDM_MAGIC \<and>
     version (header msg) = IDM_VERSION \<and>
     payload_len (header msg) \<le> IDM_MAX_PAYLOAD_SIZE"

subsection \<open>Packed little-endian structures\<close>

text \<open>
  The payload structures are packed and are read and written through casts of the
  payload bytes. \<open>le_bytes n v\<close> are the \<open>n\<close> bytes of \<open>v\<close>, least significant first;
  \<open>load_u32 bs off\<close> and \<open>load_u64 bs off\<close> read a field at byte offset \<open>off\<close>. A read
  past the end of the buffer is undefined in C; here the missing bytes read as 0, and
  the theorems that depend on such a field assume the buffer holds it.
\<close>

fun le_bytes :: "nat \<Rightarrow> nat \<Rightarrow> u8 list" where
  "le_bytes 0 v = []"
| "le_bytes (Suc n) v = of_nat (v mod 256) # le_bytes n (v div 256)"

fun le_nat :: "u8 list \<Rightarrow> nat" where
  "le_nat [] = 0"
| "le_nat (b # bs) = unat b + 256 * le_nat bs"

definition store_u32 :: "u32 \<Rightarrow> u8 list" where
  "store_u32 w = le_bytes 4 (unat w)"

definition store_u64 :: "u64 \<Rightarrow> u8 list" where
  "store_u64 w = le_bytes 8 (unat w)"

definition load_u32 :: "u8 list \<Rightarrow> nat \<Rightarrow> u32" where
  "load_u32 bs off = of_nat (le_nat (take 4 (drop off bs)))"

definition load_u64 :: "u8 list \<Rightarrow> nat \<Rightarrow> u64" where
  "load_u64 bs off = of_nat (le_nat (take 8 (drop off bs)))"

text \<open>\<open>struct idm_gpu_alloc\<close>: size at 0, flags at 8, reserved at 12.\<close>

definition sizeof_idm_gpu_alloc :: u64 where "sizeof_idm_gpu_alloc = 16"
definition gpu_alloc_size :: "u8 list \<Rightarrow> u64" where "gpu_alloc_size p = load_u64 p 0"
definition gpu_alloc_flags :: "u8 list \<Rightarrow> u32" where "gpu_alloc_flags p = load_u32 p 8"

definition encode_gpu_alloc :: "u64 \<Rightarrow> u32 \<Rightarrow> u32 \<Rightarrow> u8 list" where
  "encode_gpu_alloc sz flags rsv = store_u64 sz @ store_u32 flags @ store_u32 rsv"

text \<open>\<open>struct idm_gpu_free\<close>: handle at 0.\<close>

definition sizeof_idm_gpu_free :: u64 where "sizeof_idm_gpu_free = 8"
definition gpu_free_handle :: "u8 list \<Rightarrow> u64" where "gpu_free_handle p = load_u64 p 0"

definition encode_gpu_free :: "u64 \<Rightarrow> u8 list" where
  "encode_gpu_free h = store_u64 h"

text \<open>
  \<open>struct idm_gpu_copy_h2d\<close>: dst\_handle at 0, dst\_offset at 8, size at 16; the host
  data follows at 24.
\<close>

definition sizeof_idm_gpu_copy_h2d :: u64 where "sizeof_idm_gpu_copy_h2d = 24"
definition copy_h2d_dst_handle :: "u8 list \<Rightarrow> u64" where "copy_h2d_dst_handle p = load_u64 p 0"
definition copy_h2d_dst_offset :: "u8 list \<Rightarrow> u64" where "copy_h2d_dst_offset p = load_u64 p 8"
definition copy_h2d_size :: "u8 list \<Rightarrow> u64" where "copy_h2d_size p = load_u64 p 16"

definition encode_gpu_copy_h2d :: "u64 \<Rightarrow> u64 \<Rightarrow> u64 \<Rightarrow> u8 list" where
  "encode_gpu_copy_h2d h off sz = store_u64 h @ store_u64 off @ store_u64 sz"

text \<open>\<open>struct idm_gpu_copy_d2h\<close>: src\_handle at 0, src\_offset at 8, size at 16.\<close>

definition sizeof_idm_gpu_copy_d2h :: u64 where "sizeof_idm_gpu_copy_d2h = 24"
definition copy_d2h_src_handle :: "u8 list \<Rightarrow> u64" where "copy_d2h_src_handle p = load_u64 p 0"
definition copy_d2h_src_offset :: "u8 list \<Rightarrow> u64" where "copy_d2h_src_offset p = load_u64 p 8"
definition copy_d2h_size :: "u8 list \<Rightarrow> u64" where "copy_d2h_size p = load_u64 p 16"

definition encode_gpu_copy_d2h :: "u64 \<Rightarrow> u64 \<Rightarrow> u64 \<Rightarrow> u8 list" where
  "encode_gpu_copy_d2h h off sz = store_u64 h @ store_u64 off @ store_u64 sz"

text \<open>
  \<open>struct idm_response_ok\<close>: request\_seq at 0, result\_handle at 8, result\_value at
  16, data\_len at 20; additional data would follow at 24.
\<close>

definition sizeof_idm_response_ok :: u64 where "sizeof_idm_response_ok = 24"
definition response_ok_request_seq :: "u8 list \<Rightarrow> u64" where
  "response_ok_request_seq p = load_u64 p 0"
definition response_ok_result_handle :: "u8 list \<Rightarrow> u64" where
  "response_ok_result_handle p = load_u64 p 8"
definition response_ok_result_value :: "u8 list \<Rightarrow> u32" where
  "response_ok_result_value p = load_u32 p 16"
definition response_ok_data_len :: "u8 list \<Rightarrow> u32" where
  "response_ok_data_len p = load_u32 p 20"

definition encode_response_ok :: "u64 \<Rightarrow> u64 \<Rightarrow> u32 \<Rightarrow> u32 \<Rightarrow> u8 list" where
  "encode_response_ok rseq rhandle rvalue dlen =
     store_u64 rseq @ store_u64 rhandle @ store_u32 rvalue @ store_u32 dlen"

text \<open>
  \<open>struct idm_response_error\<close>: request\_seq at 0, error\_code at 8, cuda\_error at 12,
  error\_msg[256] at 16. \<open>error_msg_bytes\<close> is the array after \<open>memset\<close> to 0 and
  \<open>strncpy\<close> of at most 255 characters.
\<close>

definition sizeof_idm_response_error :: u64 where "sizeof_idm_response_error = 272"
definition response_error_request_seq :: "u8 list \<Rightarrow> u64" where
  "response_error_request_seq p = load_u64 p 0"
definition response_error_error_code :: "u8 list \<Rightarrow> u32" where
  "response_error_error_code p = load_u32 p 8"
definition response_error_cuda_error :: "u8 list \<Rightarrow> u32" where
  "response_error_cuda_error p = load_u32 p 12"

definition error_msg_bytes :: "string \<Rightarrow> u8 list" where
  "error_msg_bytes s =
     (let cs = take 255 (map (\<lambda>c. of_nat (of_char c)) s)
      in cs @ replicate (256 - length cs) 0)"

definition encode_response_error :: "u64 \<Rightarrow> u32 \<Rightarrow> u32 \<Rightarrow> string \<Rightarrow> u8 list" where
  "encode_response_error rseq code cuda_error s =
     store_u64 rseq @ store_u32 code @ store_u32 cuda_error @ error_msg_bytes s"

section \<open>Transport (idm-protocol/transport.c)\<close>

text \<open>
  The build without \<open>USE_XEN\<close>: two rings in POSIX shared memory and two named
  semaphores. \<open>struct idm_connection\<close> holds pointers to them; the record holds what
  they point to, as this process sees it. \<open>tx_ring\<close> and \<open>tx_sem\<close> are shared with the
  peer's \<open>rx_ring\<close> and \<open>rx_sem\<close>, and the other way round. A semaphore is its count.
  The descriptors and the two mutexes are left out.
\<close>

record idm_connection =
  local_zone_id :: u32
  remote_zone_id :: u32
  is_server :: bool
  tx_ring :: idm_ring
  rx_ring :: idm_ring
  tx_sem :: nat
  rx_sem :: nat
  next_seq :: u64
  connected :: bool

text \<open>
  \<open>memcpy(&ring->entries[idx].msg, msg, msg_size)\<close> with \<open>msg_size\<close> the header size
  plus \<open>n\<close>: the header and the first \<open>n\<close> payload bytes of the slot are overwritten,
  the rest of the slot keeps its bytes.
\<close>

definition memcpy_msg :: "idm_message \<Rightarrow> idm_message \<Rightarrow> nat \<Rightarrow> idm_message" where
  "memcpy_msg slot msg n =
     \<lparr>header = header msg, payload = take n (payload msg) @ drop n (payload slot)\<rparr>"

text \<open>
  \<open>idm_send\<close>. The first argument is \<open>global_conn\<close> (\<open>None\<close> for the null pointer); the
  result is the return value and \<open>global_conn\<close> afterwards.
\<close>

definition idm_send :: "idm_connection option \<Rightarrow> idm_message \<Rightarrow> int \<times> idm_connection option" where
  "idm_send global_conn msg =
     (case global_conn of
        None \<Rightarrow> (- ENOTCONN, global_conn)
      | Some conn \<Rightarrow>
          if \<not> connected conn then (- ENOTCONN, global_conn)
          else
            let ring = tx_ring conn in
            if \<not> idm_message_valid msg then (- EINVAL, global_conn)
            else
              let msg_size = idm_message_size msg in
              if msg_size > sizeof_idm_ring_entry then (- EINVAL, global_conn)
              else
                let prod = producer ring; cons = consumer ring in
                if prod - cons \<ge> IDM_RING_SIZE then (- ENOSPC, global_conn)
                else
                  let idx = prod mod IDM_RING_SIZE;
                      slot = memcpy_msg (entries ring idx) msg
                               (unat (msg_size - sizeof_idm_header));
                      ring' = ring\<lparr>entries := (entries ring)(idx := slot),
                                     producer := prod + 1\<rparr>
                  in (0, Some (conn\<lparr>tx_ring := ring', tx_sem := tx_sem conn + 1\<rparr>)))"

text \<open>
  The semaphore wait at the head of \<open>idm_recv\<close>, in the build for Linux (neither
  \<open>USE_XEN\<close> nor \<open>__APPLE__\<close>). What the environment decides is in \<open>wait_env\<close>:
  \<open>now_nsec\<close> is the \<open>tv_nsec\<close> that \<open>clock_gettime\<close> returns, a value below \<open>10^9\<close>, and
  \<open>intr_errno\<close> is the error number with which a blocking \<open>sem_wait\<close> is interrupted,
  if it is.

  \<^item> \<open>timeout_ms < 0\<close>: \<open>sem_wait\<close> takes a positive count at once; at count 0 it fails
    with the error number of the interruption, or does not return.
  \<^item> \<open>timeout_ms = 0\<close>: \<open>sem_trywait\<close> takes a positive count and fails at count 0.
  \<^item> \<open>timeout_ms > 0\<close>: the code adds \<open>(timeout_ms % 1000) * 1000000\<close> to \<open>tv_nsec\<close> and
    does not carry into \<open>tv_sec\<close>. \<open>sem_timedwait\<close> of glibc first rejects a \<open>tv_nsec\<close>
    that is not below \<open>10^9\<close> with \<open>EINVAL\<close>, whatever the count (\<open>timespec_valid\<close> is
    that test); otherwise it takes a positive count, and at count 0 it times out.
    \<open>idm_recv\<close> returns \<open>-EAGAIN\<close> for every failure of the timed wait.
\<close>

datatype sem_outcome = Acquired nat | Failed int | Blocked

record wait_env =
  now_nsec :: nat
  intr_errno :: "int option"

definition timespec_valid :: "nat \<Rightarrow> int \<Rightarrow> bool" where
  "timespec_valid now timeout_ms =
     (int now + (timeout_ms mod 1000) * 1000000 < 1000000000)"

definition rx_sem_wait :: "nat \<Rightarrow> int \<Rightarrow> wait_env \<Rightarrow> sem_outcome" where
  "rx_sem_wait count timeout_ms env =
     (if timeout_ms < 0 then
        (if count > 0 then Acquired (count - 1)
         else case intr_errno env of Some errno \<Rightarrow> Failed (- errno) | None \<Rightarrow> Blocked)
      else if timeout_ms = 0 then
        (if count > 0 then Acquired (count - 1) else Failed (- EAGAIN))
      else if \<not> timespec_valid (now_nsec env) timeout_ms then Failed (- EAGAIN)
      else if count > 0 then Acquired (count - 1)
      else Failed (- EAGAIN))"

text \<open>
  With \<open>timeout_ms = 1000\<close>, the value in every call of \<open>idm_recv\<close> by the driver loop
  and by the user-side library, nothing is added to \<open>tv_nsec\<close>, the wait is not the
  blocking one, and its outcome depends on the count alone (\<open>rx_sem_wait_1000\<close> below).
  The models of these callers pass the following environment.
\<close>

definition whole_second_env :: wait_env where
  "whole_second_env = \<lparr>now_nsec = 0, intr_errno = None\<rparr>"

text \<open>
  The copy \<open>idm_recv\<close> hands to the caller when the message lies within its slot:
  the header and \<open>payload_len\<close> payload bytes.
\<close>

definition ring_msg_copy :: "idm_message \<Rightarrow> idm_message" where
  "ring_msg_copy ring_msg =
     \<lparr>header = header ring_msg,
      payload = take (unat (idm_message_size ring_msg - sizeof_idm_header)) (payload ring_msg)\<rparr>"

text \<open>
  \<open>idm_recv\<close>. \<open>env\<close> is the environment of the wait and \<open>malloc_ok\<close> says whether
  \<open>malloc\<close> of the copy succeeds. The result is the return value, \<open>*msg_out\<close> when it is
  written, and \<open>global_conn\<close> afterwards; it is \<open>None\<close> when C defines no return: the
  wait blocks for ever, or the header in the slot is valid but \<open>msg_size\<close> exceeds the
  4096 bytes of the slot (a valid \<open>payload_len\<close> can be 4 MB), so that
  \<open>memcpy(msg, ring_msg, msg_size)\<close> reads past the slot, into the following slots and
  then past the end of the shared memory segment.
\<close>

definition idm_recv ::
  "idm_connection option \<Rightarrow> int \<Rightarrow> wait_env \<Rightarrow> bool
   \<Rightarrow> (int \<times> idm_message option \<times> idm_connection option) option" where
  "idm_recv global_conn timeout_ms env malloc_ok =
     (case global_conn of
        None \<Rightarrow> Some (- ENOTCONN, None, global_conn)
      | Some conn \<Rightarrow>
          if \<not> connected conn then Some (- ENOTCONN, None, global_conn)
          else
            let ring = rx_ring conn in
            case rx_sem_wait (rx_sem conn) timeout_ms env of
              Blocked \<Rightarrow> None
            | Failed rc \<Rightarrow> Some (rc, None, global_conn)
            | Acquired count' \<Rightarrow>
                let conn1 = conn\<lparr>rx_sem := count'\<rparr>;
                    cons = consumer ring; prod = producer ring in
                if cons = prod then Some (- EAGAIN, None, Some conn1)
                else
                  let idx = cons mod IDM_RING_SIZE;
                      ring_msg = entries ring idx in
                  if \<not> idm_message_valid ring_msg then
                    Some (- EINVAL, None, Some (conn1\<lparr>rx_ring := ring\<lparr>consumer := cons + 1\<rparr>\<rparr>))
                  else
                    let msg_size = idm_message_size ring_msg in
                    if \<not> malloc_ok then Some (- ENOMEM, None, Some conn1)
                    else if msg_size > sizeof_idm_ring_entry then None
                    else
                      Some (0, Some (ring_msg_copy ring_msg),
                            Some (conn1\<lparr>rx_ring := ring\<lparr>consumer := cons + 1\<rparr>\<rparr>)))"

text \<open>
  \<open>idm_build_message\<close>. \<open>pl\<close> is the \<open>payload\<close> argument (\<open>None\<close> for a null pointer)
  and \<open>pl_len\<close> is \<open>payload_len\<close>. Bytes of the new buffer that \<open>memcpy\<close> does not write
  are 0 in the model. The result is the message (\<open>None\<close> for a null pointer) and
  \<open>global_conn\<close> afterwards.
\<close>

definition idm_build_message ::
  "idm_connection option \<Rightarrow> u32 \<Rightarrow> u16 \<Rightarrow> u8 list option \<Rightarrow> u64 \<Rightarrow> bool
   \<Rightarrow> idm_message option \<times> idm_connection option" where
  "idm_build_message global_conn dst ty pl pl_len malloc_ok =
     (case global_conn of
        None \<Rightarrow> (None, global_conn)
      | Some conn \<Rightarrow>
          if \<not> malloc_ok then (None, global_conn)
          else
            let seq = next_seq conn;
                conn' = conn\<lparr>next_seq := seq + 1\<rparr>;
                hdr = \<lparr>magic = IDM_MAGIC, version = IDM_VERSION, msg_type = ty,
                       src_zone = local_zone_id conn, dst_zone = dst, seq_num = seq,
                       payload_len = ucast pl_len, reserved = 0\<rparr>;
                body = (case pl of
                          Some bs \<Rightarrow>
                            if pl_len > 0 then
                              take (unat pl_len) bs @ replicate (unat pl_len - length bs) 0
                            else replicate (unat pl_len) 0
                        | None \<Rightarrow> replicate (unat pl_len) 0)
            in (Some \<lparr>header = hdr, payload = body\<rparr>, Some conn'))"

text \<open>The slots and indices the server leaves after \<open>memset\<close> of a ring to 0.\<close>

definition zero_header :: idm_header where
  "zero_header = \<lparr>magic = 0, version = 0, msg_type = 0, src_zone = 0, dst_zone = 0,
                   seq_num = 0, payload_len = 0, reserved = 0\<rparr>"

definition zero_slot :: idm_message where
  "zero_slot = \<lparr>header = zero_header, payload = replicate 4064 0\<rparr>"

definition zero_ring :: idm_ring where
  "zero_ring = \<lparr>producer = 0, consumer = 0, entries = (\<lambda>_. zero_slot)\<rparr>"

subsection \<open>Sequences of calls and the contents of a ring\<close>



text \<open>
  The number of published, unconsumed slots of a ring, and the messages a receiver
  would be handed from them, oldest first.
\<close>

definition ring_count :: "idm_ring \<Rightarrow> nat" where
  "ring_count r = unat (producer r - consumer r)"

definition ring_pending :: "idm_ring \<Rightarrow> idm_message list" where
  "ring_pending r =
     map (\<lambda>i. ring_msg_copy (entries r ((consumer r + of_nat i) mod IDM_RING_SIZE)))
       [0..<ring_count r]"

text \<open>
  Whether every message that \<open>idm_recv\<close> could copy from the receive ring lies within
  its slot: no slot holds a valid header with a \<open>msg_size\<close> above the size of a slot.
  It is so for a ring that only \<open>idm_send\<close> has written (\<open>ring_reachable_in_slot\<close> below).
\<close>

definition rx_in_slots :: "idm_connection option \<Rightarrow> bool" where
  "rx_in_slots g =
     (case g of
        None \<Rightarrow> True
      | Some c \<Rightarrow>
          list_all (\<lambda>i. \<not> (idm_message_valid (entries (rx_ring c) (of_nat i))
                           \<and> idm_message_size (entries (rx_ring c) (of_nat i))
                               > sizeof_idm_ring_entry))
            [0..<32])"

text \<open>
  The states of one ring that \<open>idm_send\<close> on the sending side and \<open>idm_recv\<close> on the
  receiving side can produce from the zero-initialized ring. The sender's \<open>tx_ring\<close>
  and the receiver's \<open>rx_ring\<close> are the same shared memory.
\<close>

inductive ring_reachable :: "idm_ring \<Rightarrow> bool" where
  zeroed: "ring_reachable zero_ring"
| sent: "ring_reachable (tx_ring conn) \<Longrightarrow> idm_send (Some conn) msg = (rc, Some conn')
         \<Longrightarrow> ring_reachable (tx_ring conn')"
| received: "ring_reachable (rx_ring conn)
         \<Longrightarrow> idm_recv (Some conn) timeout_ms env malloc_ok = Some (rc, m, Some conn')
         \<Longrightarrow> ring_reachable (rx_ring conn')"

section \<open>Handle table (gpu-proxy/handle\_table.c)\<close>

text \<open>
  \<open>struct handle_entry\<close>. The field \<open>size\<close> is spelled \<open>size_bytes\<close> here, and the
  \<open>next\<close> pointer of the hash chain is the tail of the list that holds the entry.
\<close>

record handle_entry =
  handle :: u64
  zone_id :: u32
  ptr :: u64
  size_bytes :: u64

text \<open>
  The file's static variables. \<open>hash_table\<close> is the array of 1024 chain heads, read and
  written only at indices \<open>hash_handle h\<close>, which are below 1024.
\<close>

record handle_table =
  hash_table :: "u32 \<Rightarrow> handle_entry list"
  next_handle :: u64
  total_handles :: u64
  total_memory :: u64

definition HASH_TABLE_SIZE :: u64 where
  "HASH_TABLE_SIZE = 1024"

definition hash_handle :: "u64 \<Rightarrow> u32" where
  "hash_handle h = ucast (h mod HASH_TABLE_SIZE)"

text \<open>\<open>handle_table_init\<close>: the return value 0 and the state it leaves.\<close>

definition handle_table_init :: "int \<times> handle_table" where
  "handle_table_init =
     (0, \<lparr>hash_table = (\<lambda>_. []), next_handle = 1, total_handles = 0, total_memory = 0\<rparr>)"

text \<open>
  \<open>handle_table_insert\<close>. The argument \<open>malloc_ok\<close> says whether \<open>malloc\<close> of the entry
  succeeded. The result is the returned handle and the table afterwards.
\<close>

definition handle_table_insert ::
  "handle_table \<Rightarrow> u32 \<Rightarrow> u64 \<Rightarrow> u64 \<Rightarrow> bool \<Rightarrow> u64 \<times> handle_table" where
  "handle_table_insert t zid p sz malloc_ok =
     (if p = 0 then (0, t)
      else if \<not> malloc_ok then (0, t)
      else
        let entry = \<lparr>handle = next_handle t, zone_id = zid, ptr = p, size_bytes = sz\<rparr>;
            idx = hash_handle (handle entry)
        in (handle entry,
            t\<lparr>next_handle := next_handle t + 1,
              hash_table := (hash_table t)(idx := entry # hash_table t idx),
              total_handles := total_handles t + 1,
              total_memory := total_memory t + sz\<rparr>))"

text \<open>
  The \<open>while\<close> loop of \<open>handle_table_lookup\<close> over one chain: the first entry whose
  handle matches decides. The result is the returned pointer and, when \<open>*size_out\<close> is
  written, the value written.
\<close>

fun lookup_chain :: "handle_entry list \<Rightarrow> u32 \<Rightarrow> u64 \<Rightarrow> u64 \<times> u64 option" where
  "lookup_chain [] zid h = (0, None)"
| "lookup_chain (e # es) zid h =
     (if handle e = h then
        (if zone_id e \<noteq> zid then (0, None) else (ptr e, Some (size_bytes e)))
      else lookup_chain es zid h)"

definition handle_table_lookup :: "handle_table \<Rightarrow> u32 \<Rightarrow> u64 \<Rightarrow> u64 \<times> u64 option" where
  "handle_table_lookup t zid h = lookup_chain (hash_table t (hash_handle h)) zid h"

text \<open>
  The \<open>while\<close> loop of \<open>handle_table_remove\<close> over one chain: the entry unlinked (if
  any) and the chain afterwards.
\<close>

fun remove_chain ::
  "handle_entry list \<Rightarrow> u32 \<Rightarrow> u64 \<Rightarrow> handle_entry option \<times> handle_entry list" where
  "remove_chain [] zid h = (None, [])"
| "remove_chain (e # es) zid h =
     (if handle e = h then
        (if zone_id e \<noteq> zid then (None, e # es) else (Some e, es))
      else (case remove_chain es zid h of (r, es') \<Rightarrow> (r, e # es')))"

definition handle_table_remove :: "handle_table \<Rightarrow> u32 \<Rightarrow> u64 \<Rightarrow> u64 \<times> handle_table" where
  "handle_table_remove t zid h =
     (let idx = hash_handle h in
      case remove_chain (hash_table t idx) zid h of
        (None, _) \<Rightarrow> (0, t)
      | (Some entry, chain') \<Rightarrow>
          (ptr entry,
           t\<lparr>hash_table := (hash_table t)(idx := chain'),
             total_handles := total_handles t - 1,
             total_memory := total_memory t - size_bytes entry\<rparr>))"

definition handle_table_stats :: "handle_table \<Rightarrow> u64 \<times> u64" where
  "handle_table_stats t = (total_handles t, total_memory t)"

definition handle_table_cleanup :: "handle_table \<Rightarrow> handle_table" where
  "handle_table_cleanup t =
     \<lparr>hash_table = (\<lambda>_. []), next_handle = 1, total_handles = 0, total_memory = 0\<rparr>"

text \<open>
  A zone does not own a handle when the chain holds no entry with that handle, or the
  first such entry belongs to another zone.
\<close>

fun find_entry :: "handle_entry list \<Rightarrow> u64 \<Rightarrow> handle_entry option" where
  "find_entry [] h = None"
| "find_entry (e # es) h = (if handle e = h then Some e else find_entry es h)"

definition handle_absent :: "handle_table \<Rightarrow> u64 \<Rightarrow> bool" where
  "handle_absent t h = (find_entry (hash_table t (hash_handle h)) h = None)"

definition handle_foreign :: "handle_table \<Rightarrow> u32 \<Rightarrow> u64 \<Rightarrow> bool" where
  "handle_foreign t zid h =
     (case find_entry (hash_table t (hash_handle h)) h of
        None \<Rightarrow> False
      | Some e \<Rightarrow> zone_id e \<noteq> zid)"

section \<open>Dispatcher (gpu-proxy/handlers.c, gpu-proxy/main.c)\<close>

text \<open>The zone ids of main.c and libvgpu.c.\<close>

definition DRIVER_ZONE_ID :: u32 where "DRIVER_ZONE_ID = 1"
definition USER_ZONE_ID :: u32 where "USER_ZONE_ID = 2"

text \<open>
  The CUDA driver is outside the repository. Its behaviour is a parameter: a function
  from the calls made so far and the next call to what that call returns. \<open>cu_res\<close> is
  the \<open>CUresult\<close>, \<open>cu_ptr\<close> the device pointer \<open>cuMemAlloc\<close> stores, \<open>cu_data\<close> the
  bytes \<open>cuMemcpyDtoH\<close> stores in the host buffer. The state of the driver is the list
  of calls it has received, so "the backend is invoked" is a new element of that list.
\<close>

datatype cuda_call =
    CuMemAlloc u64
  | CuMemFree u64
  | CuMemcpyHtoD u64 "u8 list" u64
  | CuMemcpyDtoH u64 u64
  | CuCtxSynchronize
  | CuGetErrorString int

record cuda_ret =
  cu_res :: int
  cu_ptr :: u64
  cu_data :: "u8 list"

type_synonym cuda_driver = "cuda_call list \<Rightarrow> cuda_call \<Rightarrow> cuda_ret"

definition CUDA_SUCCESS :: int where "CUDA_SUCCESS = 0"

text \<open>
  The state of the proxy process: the statics of handle\_table.c, \<open>global_conn\<close> of
  transport.c, and the calls the CUDA driver has received.
\<close>

record proxy_state =
  handles :: handle_table
  transport :: "idm_connection option"
  cuda_calls :: "cuda_call list"

text \<open>
  \<open>send_response_ok\<close>. The arguments \<open>data\<close> and \<open>data_len\<close> are those of the C
  function; \<open>data\<close> is not read, and the message built has the fixed payload only.
  \<open>malloc_ok\<close> is the outcome of \<open>malloc\<close> in \<open>idm_build_message\<close>.
\<close>

definition send_response_ok ::
  "idm_connection option \<Rightarrow> u32 \<Rightarrow> u64 \<Rightarrow> u64 \<Rightarrow> u8 list option \<Rightarrow> u64 \<Rightarrow> bool
   \<Rightarrow> int \<times> idm_connection option" where
  "send_response_ok g dst request_seq result_handle data data_len malloc_ok =
     (let resp = encode_response_ok request_seq result_handle 0 (ucast data_len) in
      case idm_build_message g dst IDM_RESPONSE_OK (Some resp) sizeof_idm_response_ok malloc_ok of
        (None, g') \<Rightarrow> (- 1, g')
      | (Some msg, g') \<Rightarrow> idm_send g' msg)"

definition send_response_error ::
  "idm_connection option \<Rightarrow> u32 \<Rightarrow> u64 \<Rightarrow> u32 \<Rightarrow> u32 \<Rightarrow> string \<Rightarrow> bool
   \<Rightarrow> int \<times> idm_connection option" where
  "send_response_error g dst request_seq error_code cuda_error error_msg malloc_ok =
     (let resp = encode_response_error request_seq error_code cuda_error error_msg in
      case idm_build_message g dst IDM_RESPONSE_ERROR (Some resp) sizeof_idm_response_error
             malloc_ok of
        (None, g') \<Rightarrow> (- 1, g')
      | (Some msg, g') \<Rightarrow> idm_send g' msg)"

text \<open>
  The handlers return nothing; the model returns the state they leave. \<open>entry_ok\<close>,
  \<open>stage_ok\<close> and \<open>build_ok\<close> are the outcomes of \<open>malloc\<close> for the handle entry, for
  the staging buffer of a device-to-host copy, and for the response message.
\<close>

definition handle_gpu_alloc ::
  "cuda_driver \<Rightarrow> proxy_state \<Rightarrow> idm_message \<Rightarrow> bool \<Rightarrow> bool \<Rightarrow> proxy_state" where
  "handle_gpu_alloc cuda s msg entry_ok build_ok =
     (let req_size = gpu_alloc_size (payload msg);
          zone = src_zone (header msg);
          sq = seq_num (header msg);
          r = cuda (cuda_calls s) (CuMemAlloc req_size);
          s1 = s\<lparr>cuda_calls := cuda_calls s @ [CuMemAlloc req_size]\<rparr>
      in
      if cu_res r \<noteq> CUDA_SUCCESS then
        s1\<lparr>cuda_calls := cuda_calls s1 @ [CuGetErrorString (cu_res r)],
           transport := snd (send_response_error (transport s1) zone sq IDM_ERROR_CUDA_ERROR
                               (of_int (cu_res r)) ''cuMemAlloc failed'' build_ok)\<rparr>
      else
        let device_ptr = cu_ptr r in
        case handle_table_insert (handles s1) zone device_ptr req_size entry_ok of
          (h, t') \<Rightarrow>
            if h = 0 then
              s1\<lparr>handles := t',
                 cuda_calls := cuda_calls s1 @ [CuMemFree device_ptr],
                 transport := snd (send_response_error (transport s1) zone sq
                                     IDM_ERROR_OUT_OF_MEMORY 0 ''Failed to create handle''
                                     build_ok)\<rparr>
            else
              s1\<lparr>handles := t',
                 transport := snd (send_response_ok (transport s1) zone sq h None 0 build_ok)\<rparr>)"

text \<open>
  \<open>handle_gpu_free\<close> changes the state of the process three or four times. The list
  \<open>handle_gpu_free_states\<close> holds the state after each of these statements, in the
  order in which they are executed: after \<open>handle_table_remove\<close>, after \<open>cuMemFree\<close>,
  after \<open>cuGetErrorString\<close> when the free failed, and after the response is sent. The
  state that the handler leaves is the last one.
\<close>

definition handle_gpu_free_states ::
  "cuda_driver \<Rightarrow> proxy_state \<Rightarrow> idm_message \<Rightarrow> bool \<Rightarrow> proxy_state list" where
  "handle_gpu_free_states cuda s msg build_ok =
     (let req_handle = gpu_free_handle (payload msg);
          zone = src_zone (header msg);
          sq = seq_num (header msg)
      in
      case handle_table_remove (handles s) zone req_handle of
        (device_ptr, t') \<Rightarrow>
          let s0 = s\<lparr>handles := t'\<rparr> in
          if device_ptr = 0 then
            [s0,
             s0\<lparr>transport := snd (send_response_error (transport s0) zone sq
                                   IDM_ERROR_INVALID_HANDLE 0
                                   ''Invalid handle or permission denied'' build_ok)\<rparr>]
          else
            let r = cuda (cuda_calls s0) (CuMemFree device_ptr);
                s1 = s0\<lparr>cuda_calls := cuda_calls s0 @ [CuMemFree device_ptr]\<rparr>
            in
            if cu_res r \<noteq> CUDA_SUCCESS then
              let s2 = s1\<lparr>cuda_calls := cuda_calls s1 @ [CuGetErrorString (cu_res r)]\<rparr> in
              [s0, s1, s2,
               s2\<lparr>transport := snd (send_response_error (transport s2) zone sq
                                     IDM_ERROR_CUDA_ERROR (of_int (cu_res r))
                                     ''cuMemFree failed'' build_ok)\<rparr>]
            else
              [s0, s1,
               s1\<lparr>transport := snd (send_response_ok (transport s1) zone sq 0 None 0
                                     build_ok)\<rparr>])"

definition handle_gpu_free ::
  "cuda_driver \<Rightarrow> proxy_state \<Rightarrow> idm_message \<Rightarrow> bool \<Rightarrow> proxy_state" where
  "handle_gpu_free cuda s msg build_ok = last (handle_gpu_free_states cuda s msg build_ok)"

text \<open>
  In the two copy handlers \<open>alloc_size\<close> is a local that \<open>handle_table_lookup\<close> writes
  whenever it returns a non-null pointer, so the branch that would read it unwritten
  is never taken (\<open>lookup_writes_size\<close> below). The bounds test is the C expression on
  64-bit unsigned values. The host data of a host-to-device copy are the \<open>size\<close> bytes
  that follow the fixed structure in the payload.
\<close>

definition handle_gpu_copy_h2d ::
  "cuda_driver \<Rightarrow> proxy_state \<Rightarrow> idm_message \<Rightarrow> bool \<Rightarrow> proxy_state" where
  "handle_gpu_copy_h2d cuda s msg build_ok =
     (let req = payload msg;
          zone = src_zone (header msg);
          sq = seq_num (header msg)
      in
      case handle_table_lookup (handles s) zone (copy_h2d_dst_handle req) of
        (device_ptr, size_out) \<Rightarrow>
          if device_ptr = 0 then
            s\<lparr>transport := snd (send_response_error (transport s) zone sq
                                  IDM_ERROR_INVALID_HANDLE 0 ''Invalid handle'' build_ok)\<rparr>
          else
            case size_out of
              None \<Rightarrow> s
            | Some alloc_size \<Rightarrow>
                if copy_h2d_dst_offset req + copy_h2d_size req > alloc_size then
                  s\<lparr>transport := snd (send_response_error (transport s) zone sq
                                        IDM_ERROR_INVALID_SIZE 0 ''Out of bounds'' build_ok)\<rparr>
                else
                  let host_data = take (unat (copy_h2d_size req))
                                    (drop (unat sizeof_idm_gpu_copy_h2d) req);
                      dst = device_ptr + copy_h2d_dst_offset req;
                      call = CuMemcpyHtoD dst host_data (copy_h2d_size req);
                      r = cuda (cuda_calls s) call;
                      s1 = s\<lparr>cuda_calls := cuda_calls s @ [call]\<rparr>
                  in
                  if cu_res r \<noteq> CUDA_SUCCESS then
                    s1\<lparr>cuda_calls := cuda_calls s1 @ [CuGetErrorString (cu_res r)],
                       transport := snd (send_response_error (transport s1) zone sq
                                           IDM_ERROR_CUDA_ERROR (of_int (cu_res r))
                                           ''cuMemcpyHtoD failed'' build_ok)\<rparr>
                  else
                    s1\<lparr>transport := snd (send_response_ok (transport s1) zone sq 0 None 0
                                           build_ok)\<rparr>)"

definition handle_gpu_copy_d2h ::
  "cuda_driver \<Rightarrow> proxy_state \<Rightarrow> idm_message \<Rightarrow> bool \<Rightarrow> bool \<Rightarrow> proxy_state" where
  "handle_gpu_copy_d2h cuda s msg stage_ok build_ok =
     (let req = payload msg;
          zone = src_zone (header msg);
          sq = seq_num (header msg)
      in
      case handle_table_lookup (handles s) zone (copy_d2h_src_handle req) of
        (device_ptr, size_out) \<Rightarrow>
          if device_ptr = 0 then
            s\<lparr>transport := snd (send_response_error (transport s) zone sq
                                  IDM_ERROR_INVALID_HANDLE 0 ''Invalid handle'' build_ok)\<rparr>
          else
            case size_out of
              None \<Rightarrow> s
            | Some alloc_size \<Rightarrow>
                if copy_d2h_src_offset req + copy_d2h_size req > alloc_size then
                  s\<lparr>transport := snd (send_response_error (transport s) zone sq
                                        IDM_ERROR_INVALID_SIZE 0 ''Out of bounds'' build_ok)\<rparr>
                else if \<not> stage_ok then
                  s\<lparr>transport := snd (send_response_error (transport s) zone sq
                                        IDM_ERROR_OUT_OF_MEMORY 0 ''Out of memory'' build_ok)\<rparr>
                else
                  let src = device_ptr + copy_d2h_src_offset req;
                      call = CuMemcpyDtoH src (copy_d2h_size req);
                      r = cuda (cuda_calls s) call;
                      s1 = s\<lparr>cuda_calls := cuda_calls s @ [call]\<rparr>
                  in
                  if cu_res r \<noteq> CUDA_SUCCESS then
                    s1\<lparr>cuda_calls := cuda_calls s1 @ [CuGetErrorString (cu_res r)],
                       transport := snd (send_response_error (transport s1) zone sq
                                           IDM_ERROR_CUDA_ERROR (of_int (cu_res r))
                                           ''cuMemcpyDtoH failed'' build_ok)\<rparr>
                  else
                    s1\<lparr>transport := snd (send_response_ok (transport s1) zone sq 0 None 0
                                           build_ok)\<rparr>)"

definition handle_gpu_sync ::
  "cuda_driver \<Rightarrow> proxy_state \<Rightarrow> idm_message \<Rightarrow> bool \<Rightarrow> proxy_state" where
  "handle_gpu_sync cuda s msg build_ok =
     (let zone = src_zone (header msg);
          sq = seq_num (header msg);
          r = cuda (cuda_calls s) CuCtxSynchronize;
          s1 = s\<lparr>cuda_calls := cuda_calls s @ [CuCtxSynchronize]\<rparr>
      in
      if cu_res r \<noteq> CUDA_SUCCESS then
        s1\<lparr>cuda_calls := cuda_calls s1 @ [CuGetErrorString (cu_res r)],
           transport := snd (send_response_error (transport s1) zone sq IDM_ERROR_CUDA_ERROR
                               (of_int (cu_res r)) ''cuCtxSynchronize failed'' build_ok)\<rparr>
      else
        s1\<lparr>transport := snd (send_response_ok (transport s1) zone sq 0 None 0 build_ok)\<rparr>)"

text \<open>
  The \<open>switch\<close> of \<open>run_server\<close> in main.c, and one iteration of its loop:
  \<open>idm_recv(&msg, 1000)\<close>, then the dispatch when a message was received.
\<close>

definition dispatch ::
  "cuda_driver \<Rightarrow> proxy_state \<Rightarrow> idm_message \<Rightarrow> bool \<Rightarrow> bool \<Rightarrow> bool \<Rightarrow> proxy_state" where
  "dispatch cuda s msg entry_ok stage_ok build_ok =
     (let ty = msg_type (header msg) in
      if ty = IDM_GPU_ALLOC then handle_gpu_alloc cuda s msg entry_ok build_ok
      else if ty = IDM_GPU_FREE then handle_gpu_free cuda s msg build_ok
      else if ty = IDM_GPU_COPY_H2D then handle_gpu_copy_h2d cuda s msg build_ok
      else if ty = IDM_GPU_COPY_D2H then handle_gpu_copy_d2h cuda s msg stage_ok build_ok
      else if ty = IDM_GPU_SYNC then handle_gpu_sync cuda s msg build_ok
      else s)"

definition run_server_iteration ::
  "cuda_driver \<Rightarrow> proxy_state \<Rightarrow> bool \<Rightarrow> bool \<Rightarrow> bool \<Rightarrow> bool \<Rightarrow> proxy_state option" where
  "run_server_iteration cuda s recv_ok entry_ok stage_ok build_ok =
     (case idm_recv (transport s) 1000 whole_second_env recv_ok of
        None \<Rightarrow> None
      | Some (ret, msg_out, g) \<Rightarrow>
          if ret < 0 then Some (s\<lparr>transport := g\<rparr>)
          else
            (case msg_out of
               None \<Rightarrow> None
             | Some msg \<Rightarrow>
                 Some (dispatch cuda (s\<lparr>transport := g\<rparr>) msg entry_ok stage_ok build_ok)))"

section \<open>User-side library (gpu-proxy/libvgpu/libvgpu.c)\<close>

text \<open>The result codes of libvgpu/cuda.h.\<close>

definition CUDA_ERROR_INVALID_VALUE :: int where "CUDA_ERROR_INVALID_VALUE = 1"
definition CUDA_ERROR_OUT_OF_MEMORY :: int where "CUDA_ERROR_OUT_OF_MEMORY = 2"
definition CUDA_ERROR_NOT_INITIALIZED :: int where "CUDA_ERROR_NOT_INITIALIZED = 3"
definition CUDA_ERROR_INVALID_HANDLE :: int where "CUDA_ERROR_INVALID_HANDLE = 400"

text \<open>
  The \<open>switch\<close> of \<open>send_and_wait\<close> that maps the \<open>error_code\<close> of a matching
  \<open>RESPONSE_ERROR\<close> to a \<open>CUresult\<close>.
\<close>

definition map_idm_error :: "u32 \<Rightarrow> int" where
  "map_idm_error error_code =
     (if error_code = IDM_ERROR_OUT_OF_MEMORY then CUDA_ERROR_OUT_OF_MEMORY
      else if error_code = IDM_ERROR_INVALID_HANDLE then CUDA_ERROR_INVALID_HANDLE
      else CUDA_ERROR_INVALID_VALUE)"

text \<open>
  The body of the loop of \<open>send_and_wait\<close> once \<open>idm_recv\<close> has handed out \<open>resp\<close>:
  \<open>Some\<close> of the value returned and of the handle stored through \<open>handle_out\<close>, or
  \<open>None\<close> when the loop goes on to its next iteration.
\<close>

definition check_response :: "idm_message \<Rightarrow> u64 \<Rightarrow> (int \<times> u64 option) option" where
  "check_response resp req_seq =
     (if msg_type (header resp) = IDM_RESPONSE_OK then
        (if response_ok_request_seq (payload resp) = req_seq then
           Some (CUDA_SUCCESS, Some (response_ok_result_handle (payload resp)))
         else None)
      else if msg_type (header resp) = IDM_RESPONSE_ERROR then
        (if response_error_request_seq (payload resp) = req_seq then
           Some (map_idm_error (response_error_error_code (payload resp)), None)
         else None)
      else None)"

text \<open>
  The \<open>for\<close> loop of \<open>send_and_wait\<close>, from iteration \<open>i\<close> with \<open>n\<close> iterations left.
  The other zone runs concurrently: \<open>peer i\<close> is what it has done to the shared rings and
  semaphores when iteration \<open>i\<close> calls \<open>idm_recv\<close>, and \<open>mem i\<close> is the outcome of \<open>malloc\<close>
  in that call. The result is \<open>None\<close> when the call does not return; otherwise the
  \<open>CUresult\<close>, the handle stored through \<open>handle_out\<close> (if any) and \<open>global_conn\<close>.
\<close>

fun wait_for_response ::
  "(nat \<Rightarrow> idm_connection option \<Rightarrow> idm_connection option) \<Rightarrow> (nat \<Rightarrow> bool) \<Rightarrow> u64
   \<Rightarrow> nat \<Rightarrow> nat \<Rightarrow> idm_connection option
   \<Rightarrow> (int \<times> u64 option \<times> idm_connection option) option" where
  "wait_for_response peer mem req_seq i 0 g = Some (CUDA_ERROR_INVALID_VALUE, None, g)"
| "wait_for_response peer mem req_seq i (Suc n) g =
     (case idm_recv (peer i g) 1000 whole_second_env (mem i) of
        None \<Rightarrow> None
      | Some (ret, resp, g') \<Rightarrow>
          if ret < 0 then wait_for_response peer mem req_seq (Suc i) n g'
          else
            (case resp of
               None \<Rightarrow> None
             | Some r \<Rightarrow>
                 (case check_response r req_seq of
                    Some (res, h) \<Rightarrow> Some (res, h, g')
                  | None \<Rightarrow> wait_for_response peer mem req_seq (Suc i) n g')))"

definition send_and_wait ::
  "(nat \<Rightarrow> idm_connection option \<Rightarrow> idm_connection option) \<Rightarrow> (nat \<Rightarrow> bool)
   \<Rightarrow> idm_connection option \<Rightarrow> idm_message
   \<Rightarrow> (int \<times> u64 option \<times> idm_connection option) option" where
  "send_and_wait peer mem g msg =
     (let req_seq = seq_num (header msg) in
      case idm_send g msg of
        (ret, g') \<Rightarrow>
          if ret < 0 then Some (CUDA_ERROR_INVALID_VALUE, None, g')
          else wait_for_response peer mem req_seq 0 10 g')"

text \<open>
  The state of the library: \<open>initialized\<close> and the \<open>global_conn\<close> of the user process.
  A host buffer argument is \<open>None\<close> for a null pointer and otherwise the bytes it
  points to; the functions return the \<open>CUresult\<close>, the buffer afterwards and the state.
\<close>

record vgpu_state =
  initialized :: bool
  user_conn :: "idm_connection option"

definition cuMemcpyDtoH ::
  "(nat \<Rightarrow> idm_connection option \<Rightarrow> idm_connection option) \<Rightarrow> (nat \<Rightarrow> bool) \<Rightarrow> bool
   \<Rightarrow> vgpu_state \<Rightarrow> u8 list option \<Rightarrow> u64 \<Rightarrow> u64
   \<Rightarrow> (int \<times> u8 list option \<times> vgpu_state) option" where
  "cuMemcpyDtoH peer mem build_ok s dstHost srcDevice ByteCount =
     (if \<not> initialized s then Some (CUDA_ERROR_NOT_INITIALIZED, dstHost, s)
      else
        case dstHost of
          None \<Rightarrow> Some (CUDA_ERROR_INVALID_VALUE, dstHost, s)
        | Some buf \<Rightarrow>
            if srcDevice = 0 \<or> ByteCount = 0 then Some (CUDA_ERROR_INVALID_VALUE, dstHost, s)
            else
              let copy_req = encode_gpu_copy_d2h srcDevice 0 ByteCount in
              case idm_build_message (user_conn s) DRIVER_ZONE_ID IDM_GPU_COPY_D2H
                     (Some copy_req) sizeof_idm_gpu_copy_d2h build_ok of
                (None, g) \<Rightarrow> Some (CUDA_ERROR_OUT_OF_MEMORY, dstHost, s\<lparr>user_conn := g\<rparr>)
              | (Some msg, g) \<Rightarrow>
                  (case send_and_wait peer mem g msg of
                     None \<Rightarrow> None
                   | Some (result, _, g') \<Rightarrow>
                       if result = CUDA_SUCCESS then
                         Some (result,
                               Some (replicate (unat ByteCount) 0 @ drop (unat ByteCount) buf),
                               s\<lparr>user_conn := g'\<rparr>)
                       else Some (result, dstHost, s\<lparr>user_conn := g'\<rparr>)))"

section \<open>Example states\<close>

text \<open>
  The connection that
  \<open>idm_init(DRIVER_ZONE_ID, USER_ZONE_ID, true)\<close> leaves in the driver zone (both rings
  zeroed), the connection of a user zone attached to the same memory, and a valid
  message with a given sequence number and payload. They are the inputs at which the
  theorems below are evaluated.
\<close>

definition server_conn :: idm_connection where
  "server_conn = \<lparr>local_zone_id = DRIVER_ZONE_ID, remote_zone_id = USER_ZONE_ID,
     is_server = True, tx_ring = zero_ring, rx_ring = zero_ring, tx_sem = 0, rx_sem = 0,
     next_seq = 1, connected = True\<rparr>"

definition client_conn :: idm_connection where
  "client_conn = \<lparr>local_zone_id = USER_ZONE_ID, remote_zone_id = DRIVER_ZONE_ID,
     is_server = False, tx_ring = zero_ring, rx_ring = zero_ring, tx_sem = 0, rx_sem = 0,
     next_seq = 1, connected = True\<rparr>"

definition test_msg :: "u64 \<Rightarrow> u8 list \<Rightarrow> idm_message" where
  "test_msg sq pl =
     \<lparr>header = \<lparr>magic = IDM_MAGIC, version = IDM_VERSION, msg_type = IDM_GPU_SYNC,
                 src_zone = USER_ZONE_ID, dst_zone = DRIVER_ZONE_ID, seq_num = sq,
                 payload_len = of_nat (length pl), reserved = 0\<rparr>,
      payload = pl\<rparr>"

text \<open>
  A request or response as \<open>idm_build_message\<close> lays it out, with a given source zone,
  type, sequence number and payload; a CUDA driver that answers every call alike; the
  proxy after \<open>handle_table_init\<close> with the server connection; and the same proxy after
  an allocation of 16 bytes at device address 0x1000 for the user zone, which gets
  handle 1.
\<close>

definition request_msg :: "u32 \<Rightarrow> u32 \<Rightarrow> u16 \<Rightarrow> u64 \<Rightarrow> u8 list \<Rightarrow> idm_message" where
  "request_msg src dst ty sq pl =
     \<lparr>header = \<lparr>magic = IDM_MAGIC, version = IDM_VERSION, msg_type = ty,
                 src_zone = src, dst_zone = dst, seq_num = sq,
                 payload_len = of_nat (length pl), reserved = 0\<rparr>,
      payload = pl\<rparr>"

definition const_cuda :: "int \<Rightarrow> u64 \<Rightarrow> u8 list \<Rightarrow> cuda_driver" where
  "const_cuda res p d = (\<lambda>calls call. \<lparr>cu_res = res, cu_ptr = p, cu_data = d\<rparr>)"

definition proxy_empty :: proxy_state where
  "proxy_empty = \<lparr>handles = snd handle_table_init, transport = Some server_conn,
                   cuda_calls = []\<rparr>"

definition proxy_one :: proxy_state where
  "proxy_one = proxy_empty
     \<lparr>handles := snd (handle_table_insert (snd handle_table_init) USER_ZONE_ID 0x1000 16 True)\<rparr>"

text \<open>
  What a user zone sees of the shared rings and semaphores after the driver zone, in
  state \<open>d\<close>, has run one iteration of its loop on them with every \<open>malloc\<close> succeeding.
  The user's \<open>tx_ring\<close> and \<open>tx_sem\<close> are the driver's \<open>rx_ring\<close> and \<open>rx_sem\<close>, and the
  other way round.
\<close>

definition driver_peer ::
  "cuda_driver \<Rightarrow> proxy_state \<Rightarrow> idm_connection option \<Rightarrow> idm_connection option" where
  "driver_peer cuda d g =
     (case (g, transport d) of
        (Some c, Some dc) \<Rightarrow>
          (let d1 = d\<lparr>transport := Some (dc\<lparr>rx_ring := tx_ring c, rx_sem := tx_sem c,
                                             tx_ring := rx_ring c, tx_sem := rx_sem c\<rparr>)\<rparr>
           in case run_server_iteration cuda d1 True True True True of
                Some d2 \<Rightarrow>
                  (case transport d2 of
                     Some dc2 \<Rightarrow> Some (c\<lparr>tx_ring := rx_ring dc2, tx_sem := rx_sem dc2,
                                         rx_ring := tx_ring dc2, rx_sem := tx_sem dc2\<rparr>)
                   | None \<Rightarrow> g)
              | None \<Rightarrow> g)
      | _ \<Rightarrow> g)"

section \<open>Properties of the handle table\<close>

subsection \<open>Facts about the chains\<close>

lemma lookup_chain_find:
  "lookup_chain es zid h =
     (case find_entry es h of
        None \<Rightarrow> (0, None)
      | Some e \<Rightarrow> if zone_id e \<noteq> zid then (0, None) else (ptr e, Some (size_bytes e)))"
  by (induction es) auto

lemma remove_chain_not_owned:
  "find_entry es h = None \<or> (\<exists>e. find_entry es h = Some e \<and> zone_id e \<noteq> zid)
   \<Longrightarrow> remove_chain es zid h = (None, es)"
  by (induction es) auto

lemma remove_chain_head:
  "handle e = h \<Longrightarrow> zone_id e = zid \<Longrightarrow> remove_chain (e # es) zid h = (Some e, es)"
  by simp

lemma handle_table_insert_success:
  "fst (handle_table_insert t zid p sz malloc_ok) \<noteq> 0
   \<longleftrightarrow> p \<noteq> 0 \<and> malloc_ok \<and> next_handle t \<noteq> 0"
  by (simp add: handle_table_insert_def Let_def)

text \<open>
  C8. For every zone, non-null pointer and size: when \<open>handle_table_insert\<close> succeeds
  (it returns a handle other than 0, the error value of handle\_table.h), the handle is
  greater than 0, \<open>handle_table_remove\<close> of that handle by the same zone returns exactly
  the inserted pointer, and after the pair the live-handle count, the live-bytes counter
  and the chains are what they were before the insert.
\<close>

theorem insert_remove_roundtrip:
  assumes "p \<noteq> 0"
    and "handle_table_insert t zid p sz malloc_ok = (h, t')"
    and "h \<noteq> 0"
  shows "0 < h \<and> fst (handle_table_remove t' zid h) = p
    \<and> total_handles (snd (handle_table_remove t' zid h)) = total_handles t
    \<and> total_memory (snd (handle_table_remove t' zid h)) = total_memory t
    \<and> hash_table (snd (handle_table_remove t' zid h)) = hash_table t"
proof -
  from assms have ok: "malloc_ok" and h: "h = next_handle t"
    by (auto simp: handle_table_insert_def Let_def split: if_splits)
  define entry where "entry = \<lparr>handle = h, zone_id = zid, ptr = p, size_bytes = sz\<rparr>"
  from assms ok h have t': "t' = t\<lparr>next_handle := next_handle t + 1,
      hash_table := (hash_table t)(hash_handle h := entry # hash_table t (hash_handle h)),
      total_handles := total_handles t + 1,
      total_memory := total_memory t + sz\<rparr>"
    by (simp add: handle_table_insert_def Let_def entry_def)
  have chain: "remove_chain (hash_table t' (hash_handle h)) zid h
      = (Some entry, hash_table t (hash_handle h))"
    by (simp add: t' entry_def)
  have pos: "0 < h" using \<open>h \<noteq> 0\<close> by (simp add: word_neq_0_conv)
  show ?thesis
    using pos by (simp add: handle_table_remove_def Let_def chain) (simp add: t' entry_def)
qed

theorem insert_remove_roundtrip_witness:
  "(4096 :: u64) \<noteq> 0
   \<and> handle_table_insert (snd handle_table_init) 2 4096 1048576 True
       = (1, snd (handle_table_insert (snd handle_table_init) 2 4096 1048576 True))
   \<and> (1 :: u64) \<noteq> 0
   \<and> fst (handle_table_remove
        (snd (handle_table_insert (snd handle_table_init) 2 4096 1048576 True)) 2 1) = 4096
   \<and> handle_table_stats (snd (handle_table_remove
        (snd (handle_table_insert (snd handle_table_init) 2 4096 1048576 True)) 2 1)) = (0, 0)"
proof -
  have p: "(4096 :: u64) \<noteq> 0" by simp
  have ins: "handle_table_insert (snd handle_table_init) 2 4096 1048576 True
       = (1, snd (handle_table_insert (snd handle_table_init) 2 4096 1048576 True))"
    by (simp add: handle_table_insert_def handle_table_init_def Let_def)
  have h: "(1 :: u64) \<noteq> 0" by simp
  show ?thesis
    using insert_remove_roundtrip [OF p ins h] p ins h
    by (simp add: handle_table_stats_def handle_table_init_def)
qed

section \<open>Properties of the transport\<close>

subsection \<open>Word arithmetic of the ring indices\<close>

lemma unat_ucast_u32_u64: "unat (ucast (x::u32) :: u64) = unat x"
proof -
  have "unat x < 2 ^ 32" using unsigned_less [of x, where 'a = nat] by simp
  then have "unat x < 2 ^ 64" by simp
  then show ?thesis by (simp add: unsigned_ucast_eq take_bit_nat_eq_self)
qed

lemma msg_payload_bytes:
  "unat (idm_message_size msg - sizeof_idm_header) = unat (payload_len (header msg))"
  by (simp add: idm_message_size_def unat_ucast_u32_u64)

lemma nat_mod32_distinct:
  assumes "i < d" "d < 32" "((c::nat) + i) mod 32 = (c + d) mod 32"
  shows False
proof -
  have "c + i \<le> c + d" using assms by simp
  then have "32 dvd (c + d) - (c + i)"
    using assms(3) mod_eq_dvd_iff_nat [of "c + i" "c + d" 32] by simp
  then have "32 dvd d - i" by simp
  then have "32 \<le> d - i" using assms(1) by (intro dvd_imp_le) auto
  with assms show False by simp
qed

lemma unat_slot_index: "unat ((c + of_nat i) mod IDM_RING_SIZE) = (unat c + i) mod 32"
proof -
  have "unat ((c + of_nat i) mod (32::u32)) = ((unat c + i mod 2^32) mod 2^32) mod 32"
    by (simp add: unat_mod unat_word_ariths unat_of_nat)
  also have "\<dots> = (unat c + i) mod 2^32 mod 32"
    by (simp add: mod_add_right_eq)
  also have "\<dots> = (unat c + i) mod 32"
    by (rule mod_mod_cancel) simp
  finally show ?thesis by (simp add: IDM_RING_SIZE_def)
qed

lemma slot_index_distinct:
  assumes "i < d" "d < 32"
  shows "(c + of_nat i) mod IDM_RING_SIZE \<noteq> (c + of_nat d) mod IDM_RING_SIZE"
proof
  assume "(c + of_nat i) mod IDM_RING_SIZE = (c + of_nat d) mod IDM_RING_SIZE"
  then have "unat ((c + of_nat i) mod IDM_RING_SIZE) = unat ((c + of_nat d) mod IDM_RING_SIZE)"
    by simp
  then have "(unat c + i) mod 32 = (unat c + d) mod 32"
    by (simp only: unat_slot_index)
  with assms show False using nat_mod32_distinct by blast
qed

lemma ring_not_full_iff: "\<not> (IDM_RING_SIZE \<le> p - c) \<longleftrightarrow> unat (p - c) < 32"
  by (simp add: IDM_RING_SIZE_def word_le_nat_alt not_le)

lemma unat_diff_pred: "c \<noteq> p \<Longrightarrow> unat (p - (c + 1) :: u32) = unat (p - c) - 1"
  by unat_arith

lemma ring_msg_copy_memcpy:
  "unat (payload_len (header msg)) \<le> length (payload msg)
   \<Longrightarrow> ring_msg_copy (memcpy_msg slot msg (unat (payload_len (header msg)))) = ring_msg_copy msg"
  by (simp add: ring_msg_copy_def memcpy_msg_def idm_message_size_def unat_ucast_u32_u64)

lemma ring_msg_copy_explicit:
  "ring_msg_copy m =
     \<lparr>header = header m, payload = take (unat (payload_len (header m))) (payload m)\<rparr>"
  by (simp add: ring_msg_copy_def idm_message_size_def unat_ucast_u32_u64)

lemma valid_ring_msg_copy: "idm_message_valid (ring_msg_copy m) = idm_message_valid m"
  by (simp add: idm_message_valid_def ring_msg_copy_def)

lemma idm_send_ok:
  assumes "connected conn" "idm_message_valid msg"
    and "idm_message_size msg \<le> sizeof_idm_ring_entry"
    and "\<not> (IDM_RING_SIZE \<le> producer (tx_ring conn) - consumer (tx_ring conn))"
  shows "idm_send (Some conn) msg =
    (0, Some (conn\<lparr>tx_ring := (tx_ring conn)
                \<lparr>entries := (entries (tx_ring conn))
                   (producer (tx_ring conn) mod IDM_RING_SIZE :=
                      memcpy_msg (entries (tx_ring conn) (producer (tx_ring conn) mod IDM_RING_SIZE))
                        msg (unat (payload_len (header msg)))),
                 producer := producer (tx_ring conn) + 1\<rparr>,
              tx_sem := tx_sem conn + 1\<rparr>))"
proof -
  from assms(3) have "\<not> sizeof_idm_ring_entry < idm_message_size msg" by (simp add: not_less)
  with assms show ?thesis by (simp add: idm_send_def Let_def msg_payload_bytes)
qed

lemma idm_send_full:
  assumes "connected conn" "idm_message_valid msg"
    and "idm_message_size msg \<le> sizeof_idm_ring_entry"
    and "IDM_RING_SIZE \<le> producer (tx_ring conn) - consumer (tx_ring conn)"
  shows "idm_send (Some conn) msg = (- ENOSPC, Some conn)"
proof -
  from assms(3) have "\<not> sizeof_idm_ring_entry < idm_message_size msg" by (simp add: not_less)
  with assms show ?thesis by (simp add: idm_send_def Let_def)
qed

lemma unat_diff_succ:
  assumes "unat (p - c) < 32"
  shows "unat ((p + 1) - c :: u32) = Suc (unat (p - c))"
proof -
  have e: "(p + 1) - c = (p - c) + 1" by simp
  have "unat (p - c) + unat (1::u32) < 2 ^ LENGTH(32)" using assms by simp
  then have "unat ((p - c) + 1) = unat (p - c) + unat (1::u32)"
    by (simp only: unat_add_lem)
  then show ?thesis by (simp add: e)
qed

lemma idm_recv_invalid:
  assumes "connected conn"
    and "rx_sem_wait (rx_sem conn) timeout_ms env = Acquired k"
    and "consumer (rx_ring conn) \<noteq> producer (rx_ring conn)"
    and "\<not> idm_message_valid (entries (rx_ring conn) (consumer (rx_ring conn) mod IDM_RING_SIZE))"
  shows "idm_recv (Some conn) timeout_ms env malloc_ok =
     Some (- EINVAL, None,
           Some (conn\<lparr>rx_sem := k, rx_ring := (rx_ring conn)\<lparr>consumer := consumer (rx_ring conn) + 1\<rparr>\<rparr>))"
  using assms by (simp add: idm_recv_def Let_def)

lemma idm_recv_ok:
  assumes "connected conn"
    and "rx_sem_wait (rx_sem conn) timeout_ms env = Acquired k"
    and "consumer (rx_ring conn) \<noteq> producer (rx_ring conn)"
    and "idm_message_valid (entries (rx_ring conn) (consumer (rx_ring conn) mod IDM_RING_SIZE))"
    and "idm_message_size (entries (rx_ring conn) (consumer (rx_ring conn) mod IDM_RING_SIZE))
           \<le> sizeof_idm_ring_entry"
  shows "idm_recv (Some conn) timeout_ms env True =
     Some (0, Some (ring_msg_copy (entries (rx_ring conn) (consumer (rx_ring conn) mod IDM_RING_SIZE))),
           Some (conn\<lparr>rx_sem := k, rx_ring := (rx_ring conn)\<lparr>consumer := consumer (rx_ring conn) + 1\<rparr>\<rparr>))"
proof -
  from assms(5) have "\<not> sizeof_idm_ring_entry
      < idm_message_size (entries (rx_ring conn) (consumer (rx_ring conn) mod IDM_RING_SIZE))"
    by (simp add: not_less)
  with assms(1-4) show ?thesis by (simp add: idm_recv_def Let_def)
qed

lemma idm_recv_past_slot:
  assumes "connected conn"
    and "rx_sem_wait (rx_sem conn) timeout_ms env = Acquired k"
    and "consumer (rx_ring conn) \<noteq> producer (rx_ring conn)"
    and "idm_message_valid (entries (rx_ring conn) (consumer (rx_ring conn) mod IDM_RING_SIZE))"
    and "sizeof_idm_ring_entry
           < idm_message_size (entries (rx_ring conn) (consumer (rx_ring conn) mod IDM_RING_SIZE))"
  shows "idm_recv (Some conn) timeout_ms env True = None"
  using assms by (simp add: idm_recv_def Let_def)

lemma size_ring_msg_copy: "idm_message_size (ring_msg_copy m) = idm_message_size m"
  by (simp add: idm_message_size_def ring_msg_copy_def)

lemma ring_pending_sent:
  assumes "ring_count r < 32"
    and "unat (payload_len (header msg)) \<le> length (payload msg)"
  shows "ring_pending (r\<lparr>entries := (entries r)
             (producer r mod IDM_RING_SIZE :=
                memcpy_msg (entries r (producer r mod IDM_RING_SIZE)) msg
                  (unat (payload_len (header msg)))),
           producer := producer r + 1\<rparr>)
         = ring_pending r @ [ring_msg_copy msg]"
proof -
  define d where "d = ring_count r"
  have d: "d < 32" using assms(1) by (simp add: d_def)
  have p: "producer r = consumer r + of_nat d"
    by (simp add: d_def ring_count_def)
  have cnt: "unat (producer r + 1 - consumer r) = Suc d"
    using unat_diff_succ [of "producer r" "consumer r"] d by (simp add: d_def ring_count_def)
  have old: "(consumer r + of_nat i) mod IDM_RING_SIZE \<noteq> producer r mod IDM_RING_SIZE"
    if "i < d" for i
    using slot_index_distinct [OF that d, of "consumer r"] by (simp add: p)
  show ?thesis
    using old
    by (simp add: ring_pending_def ring_count_def cnt ring_msg_copy_memcpy [OF assms(2)]
          flip: d_def [unfolded ring_count_def] p)
qed

lemma ring_pending_received:
  assumes "consumer r \<noteq> producer r"
  shows "ring_pending r =
           ring_msg_copy (entries r (consumer r mod IDM_RING_SIZE))
             # ring_pending (r\<lparr>consumer := consumer r + 1\<rparr>)"
proof -
  define d where "d = ring_count r"
  from assms have "producer r - consumer r \<noteq> 0" by simp
  then have pos: "0 < d" by (simp add: d_def ring_count_def unat_gt_0)
  have cnt: "unat (producer r - (consumer r + 1)) = d - 1"
    using unat_diff_pred [OF assms] by (simp add: d_def ring_count_def)
  have upt: "[0..<d] = 0 # map Suc [0..<d - 1]"
    using pos by (metis Suc_pred' map_Suc_upt upt_conv_Cons)
  show ?thesis
    by (simp add: ring_pending_def ring_count_def cnt o_def add.assoc
          flip: d_def [unfolded ring_count_def])
       (simp add: upt o_def add.assoc add.commute)
qed

lemma ring_pending_nonempty: "ring_pending r = m # q \<Longrightarrow> consumer r \<noteq> producer r"
  by (auto simp: ring_pending_def ring_count_def)


lemma rx_sem_wait_pos:
  "0 < n \<Longrightarrow> (0 < t \<Longrightarrow> timespec_valid (now_nsec e) t) \<Longrightarrow> rx_sem_wait n t e = Acquired (n - 1)"
  by (auto simp: rx_sem_wait_def)

lemma timespec_valid_whole_seconds:
  "timeout_ms mod 1000 = 0 \<Longrightarrow> timespec_valid now timeout_ms = (now < 1000000000)"
  by (simp add: timespec_valid_def)

lemma rx_sem_wait_1000:
  "now_nsec e < 1000000000 \<Longrightarrow> rx_sem_wait n 1000 e = rx_sem_wait n 1000 whole_second_env"
  by (simp add: rx_sem_wait_def timespec_valid_def whole_second_env_def)

lemma idm_recv_1000:
  "now_nsec e < 1000000000 \<Longrightarrow> idm_recv g 1000 e m = idm_recv g 1000 whole_second_env m"
  unfolding idm_recv_def by (simp only: rx_sem_wait_1000 [of e])

lemma rx_sem_wait_timespec:
  "0 < n \<Longrightarrow> 0 < t \<Longrightarrow> \<not> timespec_valid (now_nsec e) t \<Longrightarrow> rx_sem_wait n t e = Failed (- EAGAIN)"
  by (simp add: rx_sem_wait_def)

lemma ring_reachable_bound: "ring_reachable r \<Longrightarrow> producer r - consumer r \<le> IDM_RING_SIZE"
proof (induction rule: ring_reachable.induct)
  case zeroed
  then show ?case by (simp add: zero_ring_def)
next
  case (sent conn msg rc conn')
  have step: "\<not> (IDM_RING_SIZE \<le> p - c) \<Longrightarrow> (p + 1) - c \<le> IDM_RING_SIZE" for p c :: u32
    unfolding IDM_RING_SIZE_def by unat_arith
  from sent show ?case
    by (auto simp: idm_send_def Let_def step split: if_splits)
next
  case (received conn timeout_ms env malloc_ok rc m conn')
  have step: "c \<noteq> p \<Longrightarrow> p - c \<le> IDM_RING_SIZE \<Longrightarrow> p - (c + 1) \<le> IDM_RING_SIZE" for p c :: u32
    unfolding IDM_RING_SIZE_def by unat_arith
  from received show ?case
    by (auto simp: idm_recv_def Let_def step split: if_splits sem_outcome.splits)
qed

lemma ring_reachable_in_slot:
  "ring_reachable r \<Longrightarrow> idm_message_valid (entries r idx)
   \<Longrightarrow> idm_message_size (entries r idx) \<le> sizeof_idm_ring_entry"
proof (induction arbitrary: idx rule: ring_reachable.induct)
  case zeroed
  then show ?case
    by (simp add: zero_ring_def zero_slot_def zero_header_def idm_message_valid_def IDM_MAGIC_def)
next
  case (sent conn msg rc conn')
  show ?case
  proof (cases "tx_ring conn' = tx_ring conn")
    case True
    with sent show ?thesis by simp
  next
    case False
    with sent(2) have ok: "idm_message_size msg \<le> sizeof_idm_ring_entry"
      and r': "tx_ring conn' = (tx_ring conn)
          \<lparr>entries := (entries (tx_ring conn))
             (producer (tx_ring conn) mod IDM_RING_SIZE :=
                memcpy_msg (entries (tx_ring conn) (producer (tx_ring conn) mod IDM_RING_SIZE)) msg
                  (unat (idm_message_size msg - sizeof_idm_header))),
           producer := producer (tx_ring conn) + 1\<rparr>"
      by (auto simp: idm_send_def Let_def not_less split: if_splits)
    show ?thesis
    proof (cases "idx = producer (tx_ring conn) mod IDM_RING_SIZE")
      case True
      then show ?thesis using ok by (simp add: r' memcpy_msg_def idm_message_size_def)
    next
      case False
      then show ?thesis using sent.IH [of idx] sent.prems by (simp add: r')
    qed
  qed
next
  case (received conn timeout_ms env malloc_ok rc m conn')
  from received(2) have "entries (rx_ring conn') = entries (rx_ring conn)"
    by (auto simp: idm_recv_def Let_def split: if_splits sem_outcome.splits)
  with received.IH [of idx] received.prems show ?case by simp
qed




lemma test_msg_valid:
  assumes "length pl \<le> 4064"
  shows "idm_message_valid (test_msg sq pl)
     \<and> idm_message_size (test_msg sq pl) \<le> sizeof_idm_ring_entry
     \<and> unat (payload_len (header (test_msg sq pl))) \<le> length (payload (test_msg sq pl))"
proof -
  from assms have u: "unat (of_nat (length pl) :: u32) = length pl"
    by (simp add: unat_of_nat)
  have "unat (idm_message_size (test_msg sq pl)) = 32 + length pl"
    using assms
    by (simp add: idm_message_size_def test_msg_def sizeof_idm_header_def unat_word_ariths
          unat_ucast_u32_u64 u)
  then have "idm_message_size (test_msg sq pl) \<le> sizeof_idm_ring_entry"
    using assms by (simp add: word_le_nat_alt sizeof_idm_ring_entry_def)
  moreover have "idm_message_valid (test_msg sq pl)"
    using assms u
    by (simp add: idm_message_valid_def test_msg_def IDM_MAX_PAYLOAD_SIZE_def word_le_nat_alt)
  ultimately show ?thesis using u by (simp add: test_msg_def)
qed

subsection \<open>Ring-full condition and the index invariant\<close>

text \<open>
  C5 (as amended). For a connected endpoint and a valid message that fits a slot,
  \<open>idm_send\<close> fails with \<open>-ENOSPC\<close> exactly when \<open>producer - consumer\<close>, computed in
  unsigned 32-bit arithmetic, is at least \<open>IDM_RING_SIZE\<close>; otherwise it copies the
  header and \<open>payload_len\<close> payload bytes into \<open>entries[producer mod IDM_RING_SIZE]\<close>,
  publishes \<open>producer + 1\<close> and posts the semaphore. Every ring state reachable by
  \<open>idm_send\<close> and \<open>idm_recv\<close> from the zero-initialized ring satisfies
  \<open>0 \<le> producer - consumer \<le> IDM_RING_SIZE\<close>, so on a reachable ring the failure
  happens exactly when the difference equals \<open>IDM_RING_SIZE\<close>.
\<close>

theorem idm_send_ring_full:
  assumes "connected conn" and "idm_message_valid msg"
    and "idm_message_size msg \<le> sizeof_idm_ring_entry"
  shows "(fst (idm_send (Some conn) msg) = - ENOSPC
            \<longleftrightarrow> IDM_RING_SIZE \<le> producer (tx_ring conn) - consumer (tx_ring conn))
    \<and> (\<not> IDM_RING_SIZE \<le> producer (tx_ring conn) - consumer (tx_ring conn) \<longrightarrow>
         idm_send (Some conn) msg =
           (0, Some (conn\<lparr>tx_ring := (tx_ring conn)
                \<lparr>entries := (entries (tx_ring conn))
                   (producer (tx_ring conn) mod IDM_RING_SIZE :=
                      memcpy_msg (entries (tx_ring conn) (producer (tx_ring conn) mod IDM_RING_SIZE))
                        msg (unat (payload_len (header msg)))),
                 producer := producer (tx_ring conn) + 1\<rparr>,
              tx_sem := tx_sem conn + 1\<rparr>)))
    \<and> (ring_reachable (tx_ring conn) \<longrightarrow>
         (fst (idm_send (Some conn) msg) = - ENOSPC
            \<longleftrightarrow> producer (tx_ring conn) - consumer (tx_ring conn) = IDM_RING_SIZE))
    \<and> (\<forall>r. ring_reachable r \<longrightarrow> 0 \<le> producer r - consumer r
              \<and> producer r - consumer r \<le> IDM_RING_SIZE)"
proof -
  let ?full = "IDM_RING_SIZE \<le> producer (tx_ring conn) - consumer (tx_ring conn)"
  have full: "fst (idm_send (Some conn) msg) = - ENOSPC" if ?full
    using idm_send_full [OF assms that] by simp
  have room: "fst (idm_send (Some conn) msg) = 0" if "\<not> ?full"
    using idm_send_ok [OF assms that] by simp
  have c1: "fst (idm_send (Some conn) msg) = - ENOSPC \<longleftrightarrow> ?full"
    using full room by (cases ?full) (simp_all add: ENOSPC_def)
  have c3: "fst (idm_send (Some conn) msg) = - ENOSPC
      \<longleftrightarrow> producer (tx_ring conn) - consumer (tx_ring conn) = IDM_RING_SIZE"
    if "ring_reachable (tx_ring conn)"
    using ring_reachable_bound [OF that] c1 by auto
  have c4: "0 \<le> producer r - consumer r \<and> producer r - consumer r \<le> IDM_RING_SIZE"
    if "ring_reachable r" for r
    using ring_reachable_bound [OF that] by simp
  show ?thesis
    using c1 c3 c4 idm_send_ok [OF assms] by (intro conjI impI allI) simp_all
qed

theorem idm_send_ring_full_witness:
  "connected server_conn \<and> idm_message_valid (test_msg 1 [1, 2])
   \<and> idm_message_size (test_msg 1 [1, 2]) \<le> sizeof_idm_ring_entry
   \<and> ring_reachable (tx_ring server_conn)
   \<and> producer (tx_ring server_conn) - consumer (tx_ring server_conn) \<noteq> IDM_RING_SIZE
   \<and> fst (idm_send (Some server_conn) (test_msg 1 [1, 2])) \<noteq> - ENOSPC
   \<and> producer (tx_ring (the (snd (idm_send (Some server_conn) (test_msg 1 [1, 2]))))) = 1"
proof -
  have c: "connected server_conn" by (simp add: server_conn_def)
  have v: "idm_message_valid (test_msg 1 [1, 2])"
    and s: "idm_message_size (test_msg 1 [1, 2]) \<le> sizeof_idm_ring_entry"
    using test_msg_valid [of "[1, 2]" 1] by simp_all
  have r: "ring_reachable (tx_ring server_conn)"
    by (simp add: server_conn_def ring_reachable.zeroed)
  have d: "producer (tx_ring server_conn) - consumer (tx_ring server_conn) \<noteq> IDM_RING_SIZE"
    by (simp add: server_conn_def zero_ring_def IDM_RING_SIZE_def)
  have nf: "\<not> IDM_RING_SIZE \<le> producer (tx_ring server_conn) - consumer (tx_ring server_conn)"
    by (simp add: server_conn_def zero_ring_def IDM_RING_SIZE_def)
  have p: "producer (tx_ring server_conn) = 0"
    by (simp add: server_conn_def zero_ring_def)
  show ?thesis
    using idm_send_ring_full [OF c v s] c v s r d nf by (simp add: p ENOSPC_def)
qed

text \<open>
  The claim as first stated, with equality for every ring state, fails on a ring whose
  indices are 33 apart (shared memory that was not left by this protocol): the send is
  refused with \<open>-ENOSPC\<close> although the difference is not \<open>IDM_RING_SIZE\<close>.
\<close>

theorem idm_send_ring_full_counterexample:
  "connected (server_conn\<lparr>tx_ring := zero_ring\<lparr>producer := 33\<rparr>\<rparr>)
   \<and> idm_message_valid (test_msg 1 [1, 2])
   \<and> idm_message_size (test_msg 1 [1, 2]) \<le> sizeof_idm_ring_entry
   \<and> idm_send (Some (server_conn\<lparr>tx_ring := zero_ring\<lparr>producer := 33\<rparr>\<rparr>)) (test_msg 1 [1, 2])
       = (- ENOSPC, Some (server_conn\<lparr>tx_ring := zero_ring\<lparr>producer := 33\<rparr>\<rparr>))
   \<and> producer (tx_ring (server_conn\<lparr>tx_ring := zero_ring\<lparr>producer := 33\<rparr>\<rparr>))
       - consumer (tx_ring (server_conn\<lparr>tx_ring := zero_ring\<lparr>producer := 33\<rparr>\<rparr>)) \<noteq> IDM_RING_SIZE"
proof -
  have c: "connected (server_conn\<lparr>tx_ring := zero_ring\<lparr>producer := 33\<rparr>\<rparr>)"
    by (simp add: server_conn_def)
  have v: "idm_message_valid (test_msg 1 [1, 2])"
    and s: "idm_message_size (test_msg 1 [1, 2]) \<le> sizeof_idm_ring_entry"
    using test_msg_valid [of "[1, 2]" 1] by simp_all
  have f: "IDM_RING_SIZE \<le> producer (tx_ring (server_conn\<lparr>tx_ring := zero_ring\<lparr>producer := 33\<rparr>\<rparr>))
       - consumer (tx_ring (server_conn\<lparr>tx_ring := zero_ring\<lparr>producer := 33\<rparr>\<rparr>))"
    by (simp add: zero_ring_def IDM_RING_SIZE_def)
  have d: "producer (tx_ring (server_conn\<lparr>tx_ring := zero_ring\<lparr>producer := 33\<rparr>\<rparr>))
       - consumer (tx_ring (server_conn\<lparr>tx_ring := zero_ring\<lparr>producer := 33\<rparr>\<rparr>)) \<noteq> IDM_RING_SIZE"
    by (simp add: zero_ring_def IDM_RING_SIZE_def)
  show ?thesis using c v s d idm_send_full [OF c v s f] by simp
qed

subsection \<open>First in, first out\<close>




subsection \<open>Invalid headers\<close>

text \<open>
  C7. A message whose magic is not \<open>IDM_MAGIC\<close>, or whose version is not
  \<open>IDM_VERSION\<close>, or whose \<open>payload_len\<close> exceeds \<open>IDM_MAX_PAYLOAD_SIZE\<close> is rejected on
  both paths. \<open>idm_send\<close> returns a negative value (\<open>-EINVAL\<close> on a connected endpoint)
  and leaves the connection and its ring as they were. \<open>idm_recv\<close>, when its wait
  succeeds and the slot at the consumer index holds such a message, returns \<open>-EINVAL\<close>
  with no message, and advances the consumer index by exactly 1 and changes nothing
  else of the ring; the connection stays connected, and a later \<open>idm_recv\<close> whose wait
  succeeds and that finds in the next slot a valid message lying within the slot
  returns it.
\<close>

theorem invalid_message_rejected:
  assumes "magic (header msg) \<noteq> IDM_MAGIC \<or> version (header msg) \<noteq> IDM_VERSION
           \<or> payload_len (header msg) > IDM_MAX_PAYLOAD_SIZE"
    and "connected conn"
    and "rx_sem_wait (rx_sem conn) timeout_ms env = Acquired k"
    and "consumer (rx_ring conn) \<noteq> producer (rx_ring conn)"
    and "entries (rx_ring conn) (consumer (rx_ring conn) mod IDM_RING_SIZE) = msg"
  shows "snd (idm_send g msg) = g \<and> fst (idm_send g msg) < 0
    \<and> (\<forall>c. g = Some c \<and> connected c \<longrightarrow> fst (idm_send g msg) = - EINVAL)
    \<and> idm_recv (Some conn) timeout_ms env malloc_ok =
        Some (- EINVAL, None,
              Some (conn\<lparr>rx_sem := k,
                         rx_ring := (rx_ring conn)\<lparr>consumer := consumer (rx_ring conn) + 1\<rparr>\<rparr>))
    \<and> (\<forall>t' e' k'. rx_sem_wait k t' e' = Acquired k'
          \<and> consumer (rx_ring conn) + 1 \<noteq> producer (rx_ring conn)
          \<and> idm_message_valid (entries (rx_ring conn) ((consumer (rx_ring conn) + 1) mod IDM_RING_SIZE))
          \<and> idm_message_size (entries (rx_ring conn) ((consumer (rx_ring conn) + 1) mod IDM_RING_SIZE))
              \<le> sizeof_idm_ring_entry
        \<longrightarrow> idm_recv (Some (conn\<lparr>rx_sem := k,
                         rx_ring := (rx_ring conn)\<lparr>consumer := consumer (rx_ring conn) + 1\<rparr>\<rparr>))
               t' e' True =
             Some (0, Some (ring_msg_copy
                      (entries (rx_ring conn) ((consumer (rx_ring conn) + 1) mod IDM_RING_SIZE))),
                   Some (conn\<lparr>rx_sem := k',
                         rx_ring := (rx_ring conn)\<lparr>consumer := consumer (rx_ring conn) + 1 + 1\<rparr>\<rparr>)))"
proof -
  from assms(1) have inv: "\<not> idm_message_valid msg"
    by (auto simp: idm_message_valid_def)
  have s: "snd (idm_send g msg) = g \<and> fst (idm_send g msg) < 0
    \<and> (\<forall>c. g = Some c \<and> connected c \<longrightarrow> fst (idm_send g msg) = - EINVAL)"
    using inv by (auto simp: idm_send_def Let_def ENOTCONN_def EINVAL_def split: option.splits)
  have r: "idm_recv (Some conn) timeout_ms env malloc_ok =
        Some (- EINVAL, None,
              Some (conn\<lparr>rx_sem := k,
                         rx_ring := (rx_ring conn)\<lparr>consumer := consumer (rx_ring conn) + 1\<rparr>\<rparr>))"
    using idm_recv_invalid [OF assms(2) assms(3) assms(4)] inv assms(5) by simp
  have n: "idm_recv (Some (conn\<lparr>rx_sem := k,
                         rx_ring := (rx_ring conn)\<lparr>consumer := consumer (rx_ring conn) + 1\<rparr>\<rparr>))
               t' e' True =
             Some (0, Some (ring_msg_copy
                      (entries (rx_ring conn) ((consumer (rx_ring conn) + 1) mod IDM_RING_SIZE))),
                   Some (conn\<lparr>rx_sem := k',
                         rx_ring := (rx_ring conn)\<lparr>consumer := consumer (rx_ring conn) + 1 + 1\<rparr>\<rparr>))"
    if "rx_sem_wait k t' e' = Acquired k'"
      and "consumer (rx_ring conn) + 1 \<noteq> producer (rx_ring conn)"
      and "idm_message_valid (entries (rx_ring conn) ((consumer (rx_ring conn) + 1) mod IDM_RING_SIZE))"
      and "idm_message_size (entries (rx_ring conn) ((consumer (rx_ring conn) + 1) mod IDM_RING_SIZE))
              \<le> sizeof_idm_ring_entry"
    for t' e' k'
    using idm_recv_ok [of "conn\<lparr>rx_sem := k,
        rx_ring := (rx_ring conn)\<lparr>consumer := consumer (rx_ring conn) + 1\<rparr>\<rparr>" t' e' k'] that assms(2)
    by simp
  show ?thesis using s r n by (intro conjI allI impI) simp_all
qed

theorem invalid_message_rejected_witness:
  "magic (header zero_slot) \<noteq> IDM_MAGIC
   \<and> connected (server_conn\<lparr>rx_sem := 2,
        rx_ring := zero_ring\<lparr>producer := 2, entries := (entries zero_ring)(1 := test_msg 7 [9])\<rparr>\<rparr>)
   \<and> idm_send (Some client_conn) zero_slot = (- EINVAL, Some client_conn)
   \<and> idm_recv (Some (server_conn\<lparr>rx_sem := 2,
        rx_ring := zero_ring\<lparr>producer := 2, entries := (entries zero_ring)(1 := test_msg 7 [9])\<rparr>\<rparr>))
        1000 whole_second_env True
      = Some (- EINVAL, None, Some (server_conn\<lparr>rx_sem := 1,
        rx_ring := zero_ring\<lparr>producer := 2, entries := (entries zero_ring)(1 := test_msg 7 [9]),
                             consumer := 1\<rparr>\<rparr>))
   \<and> idm_recv (Some (server_conn\<lparr>rx_sem := 1,
        rx_ring := zero_ring\<lparr>producer := 2, entries := (entries zero_ring)(1 := test_msg 7 [9]),
                             consumer := 1\<rparr>\<rparr>))
        1000 whole_second_env True
      = Some (0, Some (test_msg 7 [9]), Some (server_conn\<lparr>rx_sem := 0,
        rx_ring := zero_ring\<lparr>producer := 2, entries := (entries zero_ring)(1 := test_msg 7 [9]),
                             consumer := 2\<rparr>\<rparr>))"
proof -
  let ?r = "zero_ring\<lparr>producer := 2, entries := (entries zero_ring)(1 := test_msg 7 [9])\<rparr>"
  let ?c = "server_conn\<lparr>rx_sem := 2, rx_ring := ?r\<rparr>"
  have i: "magic (header zero_slot) \<noteq> IDM_MAGIC \<or> version (header zero_slot) \<noteq> IDM_VERSION
           \<or> payload_len (header zero_slot) > IDM_MAX_PAYLOAD_SIZE"
    by (simp add: zero_slot_def zero_header_def IDM_MAGIC_def)
  have c: "connected ?c" by (simp add: server_conn_def)
  have w: "rx_sem_wait (rx_sem ?c) 1000 whole_second_env = Acquired 1"
    by (simp add: rx_sem_wait_def timespec_valid_def whole_second_env_def)
  have n: "consumer (rx_ring ?c) \<noteq> producer (rx_ring ?c)" by (simp add: zero_ring_def)
  have e: "entries (rx_ring ?c) (consumer (rx_ring ?c) mod IDM_RING_SIZE) = zero_slot"
    by (simp add: zero_ring_def IDM_RING_SIZE_def)
  have w2: "rx_sem_wait 1 1000 whole_second_env = Acquired 0"
    by (simp add: rx_sem_wait_def timespec_valid_def whole_second_env_def)
  have v2: "idm_message_valid (test_msg 7 [9])"
      "idm_message_size (test_msg 7 [9]) \<le> sizeof_idm_ring_entry"
    using test_msg_valid [of "[9]" 7] by simp_all
  have k: "ring_msg_copy (test_msg 7 [9]) = test_msg 7 [9]"
    by (simp add: ring_msg_copy_explicit test_msg_def)
  have cc: "connected client_conn" by (simp add: client_conn_def)
  show ?thesis
    using invalid_message_rejected [OF i c w n e, of "Some client_conn" True] i c w2 v2 cc
    by (simp add: zero_ring_def IDM_RING_SIZE_def k zero_slot_def zero_header_def IDM_MAGIC_def
          prod_eq_iff)
qed

section \<open>Properties of the wire encoding\<close>

text \<open>
  A field stored little-endian at its offset of a packed struct reads back, whatever
  bytes follow the struct.
\<close>

lemma le_bytes_numeral [simp]:
  "le_bytes (numeral k) v = of_nat (v mod 256) # le_bytes (pred_numeral k) (v div 256)"
proof -
  have "numeral k = Suc (pred_numeral k)" by (rule numeral_eq_Suc)
  then show ?thesis by (metis le_bytes.simps(2))
qed

lemma le_nat_le_bytes: "le_nat (le_bytes n v) = v mod 256 ^ n"
proof (induction n arbitrary: v)
  case 0
  then show ?case by simp
next
  case (Suc n)
  have "unat (of_nat (v mod 256) :: u8) = v mod 256"
    by (simp add: unat_of_nat)
  then show ?case
    using Suc by (simp add: mod_mult2_eq)
qed

lemma length_le_bytes [simp]: "length (le_bytes n v) = n"
  by (induction n arbitrary: v) auto

lemma length_store [simp]: "length (store_u32 w) = 4" "length (store_u64 v) = 8"
  by (simp_all add: store_u32_def store_u64_def del: le_bytes_numeral)

lemma load_store_u32: "length pre = off \<Longrightarrow> load_u32 (pre @ store_u32 w @ rest) off = w"
proof -
  assume "length pre = off"
  moreover have "le_nat (le_bytes 4 (unat w)) = unat w mod 256 ^ 4"
    by (rule le_nat_le_bytes)
  moreover have "unat w < 256 ^ 4"
    using unsigned_less [of w, where 'a = nat] by simp
  ultimately show ?thesis
    by (simp add: load_u32_def store_u32_def del: le_bytes_numeral)
qed

lemma load_store_u64: "length pre = off \<Longrightarrow> load_u64 (pre @ store_u64 w @ rest) off = w"
proof -
  assume "length pre = off"
  moreover have "le_nat (le_bytes 8 (unat w)) = unat w mod 256 ^ 8"
    by (rule le_nat_le_bytes)
  moreover have "unat w < 256 ^ 8"
    using unsigned_less [of w, where 'a = nat] by simp
  ultimately show ?thesis
    by (simp add: load_u64_def store_u64_def del: le_bytes_numeral)
qed

lemma length_error_msg_bytes [simp]: "length (error_msg_bytes s) = 256"
  by (simp add: error_msg_bytes_def Let_def)

lemma response_error_fields:
  "response_error_request_seq (encode_response_error sq code ce m) = sq"
  "response_error_error_code (encode_response_error sq code ce m) = code"
  "response_error_cuda_error (encode_response_error sq code ce m) = ce"
  "length (encode_response_error sq code ce m) = 272"
proof -
  show "response_error_request_seq (encode_response_error sq code ce m) = sq"
    using load_store_u64 [of "[]" 0 sq] by (simp add: response_error_request_seq_def encode_response_error_def)
  show "response_error_error_code (encode_response_error sq code ce m) = code"
    using load_store_u32 [of "store_u64 sq" 8 code]
    by (simp add: response_error_error_code_def encode_response_error_def)
  show "response_error_cuda_error (encode_response_error sq code ce m) = ce"
    using load_store_u32 [of "store_u64 sq @ store_u32 code" 12 ce]
    by (simp add: response_error_cuda_error_def encode_response_error_def)
  show "length (encode_response_error sq code ce m) = 272"
    by (simp add: encode_response_error_def)
qed

lemma response_ok_fields:
  "response_ok_request_seq (encode_response_ok sq h v n @ rest) = sq"
  "response_ok_result_handle (encode_response_ok sq h v n @ rest) = h"
  "response_ok_result_value (encode_response_ok sq h v n @ rest) = v"
  "response_ok_data_len (encode_response_ok sq h v n @ rest) = n"
  "length (encode_response_ok sq h v n) = 24"
proof -
  show "response_ok_request_seq (encode_response_ok sq h v n @ rest) = sq"
    using load_store_u64 [of "[]" 0 sq] by (simp add: response_ok_request_seq_def encode_response_ok_def)
  show "response_ok_result_handle (encode_response_ok sq h v n @ rest) = h"
    using load_store_u64 [of "store_u64 sq" 8 h]
    by (simp add: response_ok_result_handle_def encode_response_ok_def)
  show "response_ok_result_value (encode_response_ok sq h v n @ rest) = v"
    using load_store_u32 [of "store_u64 sq @ store_u64 h" 16 v]
    by (simp add: response_ok_result_value_def encode_response_ok_def)
  show "response_ok_data_len (encode_response_ok sq h v n @ rest) = n"
    using load_store_u32 [of "store_u64 sq @ store_u64 h @ store_u32 v" 20 n]
    by (simp add: response_ok_data_len_def encode_response_ok_def)
  show "length (encode_response_ok sq h v n) = 24"
    by (simp add: encode_response_ok_def)
qed

lemma copy_fields:
  "copy_h2d_dst_handle (encode_gpu_copy_h2d h off sz @ rest) = h"
  "copy_h2d_dst_offset (encode_gpu_copy_h2d h off sz @ rest) = off"
  "copy_h2d_size (encode_gpu_copy_h2d h off sz @ rest) = sz"
  "copy_d2h_src_handle (encode_gpu_copy_d2h h off sz @ rest) = h"
  "copy_d2h_src_offset (encode_gpu_copy_d2h h off sz @ rest) = off"
  "copy_d2h_size (encode_gpu_copy_d2h h off sz @ rest) = sz"
  "length (encode_gpu_copy_h2d h off sz) = 24"
  "length (encode_gpu_copy_d2h h off sz) = 24"
  "gpu_free_handle (encode_gpu_free h @ rest) = h"
  using load_store_u64 [of "[]" 0 h] load_store_u64 [of "store_u64 h" 8 off]
    load_store_u64 [of "store_u64 h @ store_u64 off" 16 sz]
  by (simp_all add: copy_h2d_dst_handle_def copy_h2d_dst_offset_def copy_h2d_size_def
        copy_d2h_src_handle_def copy_d2h_src_offset_def copy_d2h_size_def
        encode_gpu_copy_h2d_def encode_gpu_copy_d2h_def gpu_free_handle_def encode_gpu_free_def)

lemma request_msg_ok:
  assumes "length pl \<le> 4064"
  shows "idm_message_valid (request_msg src dst ty sq pl)"
    and "idm_message_size (request_msg src dst ty sq pl) \<le> sizeof_idm_ring_entry"
    and "unat (payload_len (header (request_msg src dst ty sq pl))) = length pl"
    and "ring_msg_copy (request_msg src dst ty sq pl) = request_msg src dst ty sq pl"
proof -
  from assms have u: "unat (of_nat (length pl) :: u32) = length pl"
    by (simp add: unat_of_nat)
  have "unat (idm_message_size (request_msg src dst ty sq pl)) = 32 + length pl"
    using assms
    by (simp add: idm_message_size_def request_msg_def sizeof_idm_header_def unat_word_ariths
          unat_ucast_u32_u64 u)
  then show "idm_message_size (request_msg src dst ty sq pl) \<le> sizeof_idm_ring_entry"
    using assms by (simp add: word_le_nat_alt sizeof_idm_ring_entry_def)
  show "idm_message_valid (request_msg src dst ty sq pl)"
    using assms u
    by (simp add: idm_message_valid_def request_msg_def IDM_MAX_PAYLOAD_SIZE_def word_le_nat_alt)
  show "unat (payload_len (header (request_msg src dst ty sq pl))) = length pl"
    using u by (simp add: request_msg_def)
  then show "ring_msg_copy (request_msg src dst ty sq pl) = request_msg src dst ty sq pl"
    by (simp add: ring_msg_copy_explicit) (simp add: request_msg_def)
qed

lemma build_request:
  assumes "length pl = unat n" and "n \<le> 0xFFFFFFFF"
  shows "idm_build_message (Some c) dst ty (Some pl) n True =
     (Some (request_msg (local_zone_id c) dst ty (next_seq c) pl),
      Some (c\<lparr>next_seq := next_seq c + 1\<rparr>))"
proof -
  have "(ucast n :: u32) = of_nat (length pl)"
    using assms(1) by simp
  moreover have "(if 0 < n then take (unat n) pl @ replicate (unat n - length pl) 0
                  else replicate (unat n) 0) = pl"
    using assms(1) by (auto simp: word_greater_zero_iff unat_eq_zero)
  ultimately show ?thesis
    by (simp add: idm_build_message_def Let_def request_msg_def)
qed

section \<open>Properties of the dispatcher\<close>

lemma lookup_not_owned:
  "handle_absent t h \<or> handle_foreign t zid h \<Longrightarrow> handle_table_lookup t zid h = (0, None)"
  by (auto simp: handle_absent_def handle_foreign_def handle_table_lookup_def lookup_chain_find
        split: option.splits)

lemma remove_not_owned:
  "handle_absent t h \<or> handle_foreign t zid h \<Longrightarrow> handle_table_remove t zid h = (0, t)"
proof -
  assume "handle_absent t h \<or> handle_foreign t zid h"
  then have "find_entry (hash_table t (hash_handle h)) h = None
      \<or> (\<exists>e. find_entry (hash_table t (hash_handle h)) h = Some e \<and> zone_id e \<noteq> zid)"
    by (auto simp: handle_absent_def handle_foreign_def split: option.splits)
  from remove_chain_not_owned [OF this] show ?thesis
    by (simp add: handle_table_remove_def)
qed

lemma lookup_writes_size: "handle_table_lookup t zid h = (p, None) \<Longrightarrow> p = 0"
  by (auto simp: handle_table_lookup_def lookup_chain_find split: option.splits if_splits)

lemma remove_chain_lookup:
  "remove_chain es zid h = (Some e, es') \<Longrightarrow> lookup_chain es zid h = (ptr e, Some (size_bytes e))"
  by (induction es arbitrary: es') (auto split: if_splits prod.splits)

lemma remove_chain_gone:
  "remove_chain es zid h = (Some e, es') \<Longrightarrow> distinct (map handle es) \<Longrightarrow> find_entry es' h = None"
proof (induction es arbitrary: es')
  case Nil
  then show ?case by simp
next
  case (Cons a es)
  have nf: "h \<notin> handle ` set xs \<Longrightarrow> find_entry xs h = None" for xs
    by (induction xs) auto
  show ?case
  proof (cases "handle a = h")
    case True
    with Cons.prems have "es' = es" by (auto split: if_splits)
    moreover from True Cons.prems(2) have "h \<notin> handle ` set es" by auto
    ultimately show ?thesis using nf by simp
  next
    case False
    with Cons.prems obtain es'' where "remove_chain es zid h = (Some e, es'')" "es' = a # es''"
      by (auto split: prod.splits)
    with Cons.IH [of es''] Cons.prems(2) False show ?thesis by simp
  qed
qed

lemma d2h_ignores_data:
  assumes "\<forall>calls c. cu_res (cuda calls c) = cu_res (cuda' calls c)"
  shows "handle_gpu_copy_d2h cuda d msg stage_ok b = handle_gpu_copy_d2h cuda' d msg stage_ok b"
  unfolding handle_gpu_copy_d2h_def Let_def using assms
  by (auto split: prod.splits option.splits)

lemma d2h_success:
  assumes "handle_table_lookup (handles d) (src_zone (header msg)) (copy_d2h_src_handle (payload msg))
            = (p, Some a)" "p \<noteq> 0"
       "\<not> copy_d2h_src_offset (payload msg) + copy_d2h_size (payload msg) > a"
       "cu_res (cuda (cuda_calls d)
                (CuMemcpyDtoH (p + copy_d2h_src_offset (payload msg)) (copy_d2h_size (payload msg))))
              = CUDA_SUCCESS"
  shows "handle_gpu_copy_d2h cuda d msg True b =
                d\<lparr>cuda_calls := cuda_calls d @
                     [CuMemcpyDtoH (p + copy_d2h_src_offset (payload msg))
                        (copy_d2h_size (payload msg))],
                  transport := snd (send_response_ok (transport d) (src_zone (header msg))
                                      (seq_num (header msg)) 0 None 0 b)\<rparr>"
    using assms by (simp add: handle_gpu_copy_d2h_def Let_def)

lemma send_response_ok_sent:
  assumes "connected c" and "ring_count (tx_ring c) < 32"
  shows "send_response_ok (Some c) dst sq h data dl True =
     (0, Some (c\<lparr>next_seq := next_seq c + 1,
        tx_ring := (tx_ring c)
          \<lparr>entries := (entries (tx_ring c))
             (producer (tx_ring c) mod IDM_RING_SIZE :=
                memcpy_msg (entries (tx_ring c) (producer (tx_ring c) mod IDM_RING_SIZE))
                  (request_msg (local_zone_id c) dst IDM_RESPONSE_OK (next_seq c)
                     (encode_response_ok sq h 0 (ucast dl))) 24),
           producer := producer (tx_ring c) + 1\<rparr>,
        tx_sem := tx_sem c + 1\<rparr>))"
proof -
  let ?pl = "encode_response_ok sq h 0 (ucast dl)"
  let ?m = "request_msg (local_zone_id c) dst IDM_RESPONSE_OK (next_seq c) ?pl"
  have len: "length ?pl = 24" by (rule response_ok_fields)
  have b: "idm_build_message (Some c) dst IDM_RESPONSE_OK (Some ?pl) sizeof_idm_response_ok True
      = (Some ?m, Some (c\<lparr>next_seq := next_seq c + 1\<rparr>))"
    by (rule build_request) (simp_all add: len sizeof_idm_response_ok_def)
  have ok: "idm_message_valid ?m" "idm_message_size ?m \<le> sizeof_idm_ring_entry"
      "unat (payload_len (header ?m)) = 24"
    using request_msg_ok [of ?pl] by (simp_all add: len)
  have nf: "\<not> IDM_RING_SIZE \<le> producer (tx_ring (c\<lparr>next_seq := next_seq c + 1\<rparr>))
              - consumer (tx_ring (c\<lparr>next_seq := next_seq c + 1\<rparr>))"
    using assms(2) by (simp add: ring_not_full_iff ring_count_def)
  have cn: "connected (c\<lparr>next_seq := next_seq c + 1\<rparr>)" using assms(1) by simp
  show ?thesis
    using idm_send_ok [OF cn ok(1) ok(2) nf] by (simp add: send_response_ok_def b ok(3))
qed

lemma proxy_one_lookup:
  "handle_table_lookup (handles proxy_one) USER_ZONE_ID 1 = (0x1000, Some 16)"
  by (simp add: proxy_one_def proxy_empty_def handle_table_init_def handle_table_insert_def
        handle_table_lookup_def Let_def hash_handle_def HASH_TABLE_SIZE_def USER_ZONE_ID_def)

lemma send_response_ok_pending:
  assumes "connected c" and "ring_count (tx_ring c) < 32"
  shows "ring_pending (tx_ring (the (snd (send_response_ok (Some c) dst sq h data dl True))))
     = ring_pending (tx_ring c) @
         [request_msg (local_zone_id c) dst IDM_RESPONSE_OK (next_seq c)
            (encode_response_ok sq h 0 (ucast dl))]"
proof -
  let ?m = "request_msg (local_zone_id c) dst IDM_RESPONSE_OK (next_seq c)
              (encode_response_ok sq h 0 (ucast dl))"
  have len: "length (encode_response_ok sq h 0 (ucast dl)) = 24" by (rule response_ok_fields)
  have ok: "unat (payload_len (header ?m)) = 24" "ring_msg_copy ?m = ?m"
    using request_msg_ok(3,4) [of "encode_response_ok sq h 0 (ucast dl)"] by (simp_all add: len)
  have "unat (payload_len (header ?m)) \<le> length (payload ?m)"
    by (simp add: ok) (simp add: request_msg_def len)
  from ring_pending_sent [OF assms(2) this]
  show ?thesis
    by (simp add: send_response_ok_sent [OF assms] ok)
qed

lemma send_response_error_sent:
  assumes "connected c" and "ring_count (tx_ring c) < 32"
  shows "send_response_error (Some c) dst sq code ce txt True =
     (0, Some (c\<lparr>next_seq := next_seq c + 1,
        tx_ring := (tx_ring c)
          \<lparr>entries := (entries (tx_ring c))
             (producer (tx_ring c) mod IDM_RING_SIZE :=
                memcpy_msg (entries (tx_ring c) (producer (tx_ring c) mod IDM_RING_SIZE))
                  (request_msg (local_zone_id c) dst IDM_RESPONSE_ERROR (next_seq c)
                     (encode_response_error sq code ce txt)) 272),
           producer := producer (tx_ring c) + 1\<rparr>,
        tx_sem := tx_sem c + 1\<rparr>))"
proof -
  let ?pl = "encode_response_error sq code ce txt"
  let ?m = "request_msg (local_zone_id c) dst IDM_RESPONSE_ERROR (next_seq c) ?pl"
  have len: "length ?pl = 272" by (rule response_error_fields)
  have b: "idm_build_message (Some c) dst IDM_RESPONSE_ERROR (Some ?pl) sizeof_idm_response_error
             True
      = (Some ?m, Some (c\<lparr>next_seq := next_seq c + 1\<rparr>))"
    by (rule build_request) (simp_all add: len sizeof_idm_response_error_def)
  have ok: "idm_message_valid ?m" "idm_message_size ?m \<le> sizeof_idm_ring_entry"
      "unat (payload_len (header ?m)) = 272"
    using request_msg_ok [of ?pl] by (simp_all add: len)
  have nf: "\<not> IDM_RING_SIZE \<le> producer (tx_ring (c\<lparr>next_seq := next_seq c + 1\<rparr>))
              - consumer (tx_ring (c\<lparr>next_seq := next_seq c + 1\<rparr>))"
    using assms(2) by (simp add: ring_not_full_iff ring_count_def)
  have cn: "connected (c\<lparr>next_seq := next_seq c + 1\<rparr>)" using assms(1) by simp
  show ?thesis
    using idm_send_ok [OF cn ok(1) ok(2) nf] by (simp add: send_response_error_def b ok(3))
qed

lemma send_response_error_pending:
  assumes "connected c" and "ring_count (tx_ring c) < 32"
  shows "ring_pending (tx_ring (the (snd (send_response_error (Some c) dst sq code ce txt True))))
     = ring_pending (tx_ring c) @
         [request_msg (local_zone_id c) dst IDM_RESPONSE_ERROR (next_seq c)
            (encode_response_error sq code ce txt)]"
proof -
  let ?m = "request_msg (local_zone_id c) dst IDM_RESPONSE_ERROR (next_seq c)
              (encode_response_error sq code ce txt)"
  have len: "length (encode_response_error sq code ce txt) = 272" by (rule response_error_fields)
  have ok: "unat (payload_len (header ?m)) = 272" "ring_msg_copy ?m = ?m"
    using request_msg_ok(3,4) [of "encode_response_error sq code ce txt"] by (simp_all add: len)
  have "unat (payload_len (header ?m)) \<le> length (payload ?m)"
    by (simp add: ok) (simp add: request_msg_def len)
  from ring_pending_sent [OF assms(2) this]
  show ?thesis
    by (simp add: send_response_error_sent [OF assms] ok)
qed

text \<open>
  C1. Let zone \<open>zid\<close> name a handle \<open>h\<close> it does not own: in state \<open>s1\<close> no entry has
  the handle, in state \<open>s2\<close> the entry belongs to another zone. \<open>handle_table_lookup\<close>
  and \<open>handle_table_remove\<close> return \<open>NULL\<close> in both states and leave the table as it
  was, and for a FREE, COPY_H2D or COPY_D2H request the dispatcher changes nothing but
  the transport. When the transport is a connected endpoint \<open>c\<close> whose transmit ring
  has room, the one message added to the ring is in both states the same
  \<open>RESPONSE_ERROR\<close>, from the driver to zone \<open>zid\<close>, whose \<open>request_seq\<close> is that of the
  request and whose \<open>error_code\<close> is \<open>IDM_ERROR_INVALID_HANDLE\<close>.
\<close>

theorem unowned_handle_indistinguishable:
  assumes "handle_absent (handles s1) h"
    and "handle_foreign (handles s2) zid h"
    and "transport s1 = transport s2"
    and "src_zone (header msg) = zid"
    and "load_u64 (payload msg) 0 = h"
  shows "handle_table_lookup (handles s1) zid h = (0, None)
    \<and> handle_table_lookup (handles s2) zid h = (0, None)
    \<and> handle_table_remove (handles s1) zid h = (0, handles s1)
    \<and> handle_table_remove (handles s2) zid h = (0, handles s2)
    \<and> handle_gpu_free cuda s1 msg build_ok =
        s1\<lparr>transport := snd (send_response_error (transport s1) zid (seq_num (header msg))
                               IDM_ERROR_INVALID_HANDLE 0
                               ''Invalid handle or permission denied'' build_ok)\<rparr>
    \<and> handle_gpu_free cuda s2 msg build_ok =
        s2\<lparr>transport := snd (send_response_error (transport s1) zid (seq_num (header msg))
                               IDM_ERROR_INVALID_HANDLE 0
                               ''Invalid handle or permission denied'' build_ok)\<rparr>
    \<and> handle_gpu_copy_h2d cuda s1 msg build_ok =
        s1\<lparr>transport := snd (send_response_error (transport s1) zid (seq_num (header msg))
                               IDM_ERROR_INVALID_HANDLE 0 ''Invalid handle'' build_ok)\<rparr>
    \<and> handle_gpu_copy_h2d cuda s2 msg build_ok =
        s2\<lparr>transport := snd (send_response_error (transport s1) zid (seq_num (header msg))
                               IDM_ERROR_INVALID_HANDLE 0 ''Invalid handle'' build_ok)\<rparr>
    \<and> handle_gpu_copy_d2h cuda s1 msg stage_ok build_ok =
        s1\<lparr>transport := snd (send_response_error (transport s1) zid (seq_num (header msg))
                               IDM_ERROR_INVALID_HANDLE 0 ''Invalid handle'' build_ok)\<rparr>
    \<and> handle_gpu_copy_d2h cuda s2 msg stage_ok build_ok =
        s2\<lparr>transport := snd (send_response_error (transport s1) zid (seq_num (header msg))
                               IDM_ERROR_INVALID_HANDLE 0 ''Invalid handle'' build_ok)\<rparr>
    \<and> (\<forall>c. transport s1 = Some c \<and> connected c \<and> ring_count (tx_ring c) < 32 \<longrightarrow>
         (let err = (\<lambda>txt. request_msg (local_zone_id c) zid IDM_RESPONSE_ERROR (next_seq c)
                             (encode_response_error (seq_num (header msg))
                                IDM_ERROR_INVALID_HANDLE 0 txt));
              sent = (\<lambda>s. ring_pending (tx_ring (the (transport s))))
          in sent (handle_gpu_free cuda s1 msg True)
               = ring_pending (tx_ring c) @ [err ''Invalid handle or permission denied'']
           \<and> sent (handle_gpu_free cuda s2 msg True)
               = ring_pending (tx_ring c) @ [err ''Invalid handle or permission denied'']
           \<and> sent (handle_gpu_copy_h2d cuda s1 msg True)
               = ring_pending (tx_ring c) @ [err ''Invalid handle'']
           \<and> sent (handle_gpu_copy_h2d cuda s2 msg True)
               = ring_pending (tx_ring c) @ [err ''Invalid handle'']
           \<and> sent (handle_gpu_copy_d2h cuda s1 msg stage_ok True)
               = ring_pending (tx_ring c) @ [err ''Invalid handle'']
           \<and> sent (handle_gpu_copy_d2h cuda s2 msg stage_ok True)
               = ring_pending (tx_ring c) @ [err ''Invalid handle'']
           \<and> (\<forall>txt. msg_type (header (err txt)) = IDM_RESPONSE_ERROR
                  \<and> dst_zone (header (err txt)) = zid
                  \<and> response_error_request_seq (payload (err txt)) = seq_num (header msg)
                  \<and> response_error_error_code (payload (err txt)) = IDM_ERROR_INVALID_HANDLE)))"
proof -
  have l1: "handle_table_lookup (handles s1) zid h = (0, None)"
    and l2: "handle_table_lookup (handles s2) zid h = (0, None)"
    using assms(1,2) by (simp_all add: lookup_not_owned)
  have r1: "handle_table_remove (handles s1) zid h = (0, handles s1)"
    and r2: "handle_table_remove (handles s2) zid h = (0, handles s2)"
    using assms(1,2) by (simp_all add: remove_not_owned)
  have f1: "handle_gpu_free cuda s1 msg b =
        s1\<lparr>transport := snd (send_response_error (transport s1) zid (seq_num (header msg))
                               IDM_ERROR_INVALID_HANDLE 0
                               ''Invalid handle or permission denied'' b)\<rparr>" for b
    using r1 assms(4,5)
    by (simp add: handle_gpu_free_def handle_gpu_free_states_def gpu_free_handle_def Let_def)
  have f2: "handle_gpu_free cuda s2 msg b =
        s2\<lparr>transport := snd (send_response_error (transport s1) zid (seq_num (header msg))
                               IDM_ERROR_INVALID_HANDLE 0
                               ''Invalid handle or permission denied'' b)\<rparr>" for b
    using r2 assms(3,4,5)
    by (simp add: handle_gpu_free_def handle_gpu_free_states_def gpu_free_handle_def Let_def)
  have h1: "handle_gpu_copy_h2d cuda s1 msg b =
        s1\<lparr>transport := snd (send_response_error (transport s1) zid (seq_num (header msg))
                               IDM_ERROR_INVALID_HANDLE 0 ''Invalid handle'' b)\<rparr>" for b
    using l1 assms(4,5) by (simp add: handle_gpu_copy_h2d_def copy_h2d_dst_handle_def Let_def)
  have h2: "handle_gpu_copy_h2d cuda s2 msg b =
        s2\<lparr>transport := snd (send_response_error (transport s1) zid (seq_num (header msg))
                               IDM_ERROR_INVALID_HANDLE 0 ''Invalid handle'' b)\<rparr>" for b
    using l2 assms(3,4,5) by (simp add: handle_gpu_copy_h2d_def copy_h2d_dst_handle_def Let_def)
  have d1: "handle_gpu_copy_d2h cuda s1 msg stage_ok b =
        s1\<lparr>transport := snd (send_response_error (transport s1) zid (seq_num (header msg))
                               IDM_ERROR_INVALID_HANDLE 0 ''Invalid handle'' b)\<rparr>" for b
    using l1 assms(4,5) by (simp add: handle_gpu_copy_d2h_def copy_d2h_src_handle_def Let_def)
  have d2: "handle_gpu_copy_d2h cuda s2 msg stage_ok b =
        s2\<lparr>transport := snd (send_response_error (transport s1) zid (seq_num (header msg))
                               IDM_ERROR_INVALID_HANDLE 0 ''Invalid handle'' b)\<rparr>" for b
    using l2 assms(3,4,5) by (simp add: handle_gpu_copy_d2h_def copy_d2h_src_handle_def Let_def)
  have w: "(let err = (\<lambda>txt. request_msg (local_zone_id c) zid IDM_RESPONSE_ERROR (next_seq c)
                             (encode_response_error (seq_num (header msg))
                                IDM_ERROR_INVALID_HANDLE 0 txt));
              sent = (\<lambda>s. ring_pending (tx_ring (the (transport s))))
          in sent (handle_gpu_free cuda s1 msg True)
               = ring_pending (tx_ring c) @ [err ''Invalid handle or permission denied'']
           \<and> sent (handle_gpu_free cuda s2 msg True)
               = ring_pending (tx_ring c) @ [err ''Invalid handle or permission denied'']
           \<and> sent (handle_gpu_copy_h2d cuda s1 msg True)
               = ring_pending (tx_ring c) @ [err ''Invalid handle'']
           \<and> sent (handle_gpu_copy_h2d cuda s2 msg True)
               = ring_pending (tx_ring c) @ [err ''Invalid handle'']
           \<and> sent (handle_gpu_copy_d2h cuda s1 msg stage_ok True)
               = ring_pending (tx_ring c) @ [err ''Invalid handle'']
           \<and> sent (handle_gpu_copy_d2h cuda s2 msg stage_ok True)
               = ring_pending (tx_ring c) @ [err ''Invalid handle'']
           \<and> (\<forall>txt. msg_type (header (err txt)) = IDM_RESPONSE_ERROR
                  \<and> dst_zone (header (err txt)) = zid
                  \<and> response_error_request_seq (payload (err txt)) = seq_num (header msg)
                  \<and> response_error_error_code (payload (err txt)) = IDM_ERROR_INVALID_HANDLE))"
    if c: "transport s1 = Some c" "connected c" "ring_count (tx_ring c) < 32" for c
  proof -
    note p = send_response_error_pending [OF c(2,3), of zid "seq_num (header msg)"
               IDM_ERROR_INVALID_HANDLE 0]
    have e: "msg_type (header (request_msg a zid IDM_RESPONSE_ERROR q pl)) = IDM_RESPONSE_ERROR"
        "dst_zone (header (request_msg a zid IDM_RESPONSE_ERROR q pl)) = zid"
        "payload (request_msg a zid IDM_RESPONSE_ERROR q pl) = pl" for a q pl
      by (simp_all add: request_msg_def)
    show ?thesis
      unfolding Let_def f1 f2 h1 h2 d1 d2
      by (simp add: c(1) p e response_error_fields)
  qed
  show ?thesis
    using w by (intro conjI allI impI) (rule l1 l2 r1 r2 f1 f2 h1 h2 d1 d2, (elim conjE, assumption)?)+
qed

theorem unowned_handle_indistinguishable_witness:
  "handle_absent (handles proxy_empty) 1 \<and> handle_foreign (handles proxy_one) 3 1
   \<and> transport proxy_empty = transport proxy_one
   \<and> handle_table_lookup (handles proxy_one) USER_ZONE_ID 1 = (0x1000, Some 16)
   \<and> handle_table_lookup (handles proxy_one) 3 1 = (0, None)
   \<and> handle_table_lookup (handles proxy_empty) 3 1 = (0, None)
   \<and> handles (handle_gpu_free (const_cuda 0 0 []) proxy_one
        (request_msg 3 DRIVER_ZONE_ID IDM_GPU_FREE 5 (encode_gpu_free 1)) True) = handles proxy_one
   \<and> map (\<lambda>m. (msg_type (header m), dst_zone (header m),
                 response_error_request_seq (payload m), response_error_error_code (payload m)))
        (ring_pending (tx_ring (the (transport (handle_gpu_free (const_cuda 0 0 []) proxy_empty
           (request_msg 3 DRIVER_ZONE_ID IDM_GPU_FREE 5 (encode_gpu_free 1)) True)))))
      = [(IDM_RESPONSE_ERROR, 3, 5, IDM_ERROR_INVALID_HANDLE)]
   \<and> map (\<lambda>m. (msg_type (header m), dst_zone (header m),
                 response_error_request_seq (payload m), response_error_error_code (payload m)))
        (ring_pending (tx_ring (the (transport (handle_gpu_free (const_cuda 0 0 []) proxy_one
           (request_msg 3 DRIVER_ZONE_ID IDM_GPU_FREE 5 (encode_gpu_free 1)) True)))))
      = [(IDM_RESPONSE_ERROR, 3, 5, IDM_ERROR_INVALID_HANDLE)]"
proof -
  let ?msg = "request_msg 3 DRIVER_ZONE_ID IDM_GPU_FREE 5 (encode_gpu_free 1)"
  define after0 where "after0 = handle_gpu_free (const_cuda 0 0 []) proxy_empty ?msg True"
  define after1 where "after1 = handle_gpu_free (const_cuda 0 0 []) proxy_one ?msg True"
  have a: "handle_absent (handles proxy_empty) 1"
    by (simp add: handle_absent_def proxy_empty_def handle_table_init_def)
  have f: "handle_foreign (handles proxy_one) 3 1"
    by (simp add: handle_foreign_def proxy_one_def proxy_empty_def handle_table_init_def
          handle_table_insert_def Let_def hash_handle_def HASH_TABLE_SIZE_def USER_ZONE_ID_def)
  have t: "transport proxy_empty = transport proxy_one"
    by (simp add: proxy_one_def)
  have z: "src_zone (header ?msg) = 3" "seq_num (header ?msg) = 5" by (simp_all add: request_msg_def)
  have h: "load_u64 (payload ?msg) 0 = 1"
    using copy_fields(9) [of 1 "[]"] by (simp add: request_msg_def gpu_free_handle_def)
  have c: "transport proxy_empty = Some server_conn \<and> connected server_conn
            \<and> ring_count (tx_ring server_conn) < 32"
    by (simp add: proxy_empty_def server_conn_def zero_ring_def ring_count_def)
  have e: "ring_pending (tx_ring server_conn) = []"
    by (simp add: server_conn_def zero_ring_def ring_count_def ring_pending_def)
  note T = unowned_handle_indistinguishable [OF a f t z(1) h, of "const_cuda 0 0 []" True True,
             folded after0_def after1_def]
  from T [THEN conjunct2, THEN conjunct2, THEN conjunct2, THEN conjunct2, THEN conjunct2,
          THEN conjunct1]
  have same: "handles after1 = handles proxy_one" by simp
  note W = T [THEN conjunct2, THEN conjunct2, THEN conjunct2, THEN conjunct2, THEN conjunct2,
              THEN conjunct2, THEN conjunct2, THEN conjunct2, THEN conjunct2, THEN conjunct2,
              THEN spec, THEN mp, OF c, unfolded Let_def]
  have e0: "map (\<lambda>m. (msg_type (header m), dst_zone (header m),
                 response_error_request_seq (payload m), response_error_error_code (payload m)))
        (ring_pending (tx_ring (the (transport after0))))
      = [(IDM_RESPONSE_ERROR, 3, 5, IDM_ERROR_INVALID_HANDLE)]"
    using W [THEN conjunct1] W [THEN conjunct2, THEN conjunct2, THEN conjunct2, THEN conjunct2,
               THEN conjunct2, THEN conjunct2, THEN spec, of "''Invalid handle or permission denied''"]
    by (simp add: e z)
  have e1: "map (\<lambda>m. (msg_type (header m), dst_zone (header m),
                 response_error_request_seq (payload m), response_error_error_code (payload m)))
        (ring_pending (tx_ring (the (transport after1))))
      = [(IDM_RESPONSE_ERROR, 3, 5, IDM_ERROR_INVALID_HANDLE)]"
    using W [THEN conjunct2, THEN conjunct1]
      W [THEN conjunct2, THEN conjunct2, THEN conjunct2, THEN conjunct2,
               THEN conjunct2, THEN conjunct2, THEN spec, of "''Invalid handle or permission denied''"]
    by (simp add: e z)
  from T [THEN conjunct2, THEN conjunct1]
  have l2: "handle_table_lookup (handles proxy_one) 3 1 = (0, None)" .
  from T [THEN conjunct1]
  have l1: "handle_table_lookup (handles proxy_empty) 3 1 = (0, None)" .
  show ?thesis
    using a f t l1 l2 same e0 e1
    by (simp add: proxy_one_lookup flip: after0_def after1_def)
qed

text \<open>
  C9. Let the requesting zone own the handle and let \<open>cuMemFree\<close> fail.
  \<open>handle_gpu_free\<close> passes through four states. In the first, after
  \<open>handle_table_remove\<close>, the entry is gone from the table and both counters are
  decremented while the backend has not been called yet; in the second \<open>cuMemFree\<close>
  has been called on the pointer; in the last the response has been sent, and the
  table is still the one of the first state: it is not the table before the request,
  and a later lookup of the handle by its owner fails. When the transport is a
  connected endpoint whose transmit ring has room and \<open>malloc\<close> succeeds, the message
  added to the ring is a \<open>RESPONSE_ERROR\<close> with \<open>error_code\<close> \<open>IDM_ERROR_CUDA_ERROR\<close>
  and the result of \<open>cuMemFree\<close> as \<open>cuda_error\<close>.
\<close>

theorem free_failure_not_rolled_back:
  assumes "src_zone (header msg) = zid"
    and "gpu_free_handle (payload msg) = h"
    and "handle_table_lookup (handles s) zid h = (p, Some sz)"
    and "p \<noteq> 0"
    and "distinct (map handle (hash_table (handles s) (hash_handle h)))"
    and "cu_res (cuda (cuda_calls s) (CuMemFree p)) \<noteq> CUDA_SUCCESS"
  shows "fst (handle_table_remove (handles s) zid h) = p
    \<and> handle_gpu_free cuda s msg build_ok =
        s\<lparr>handles := snd (handle_table_remove (handles s) zid h),
          cuda_calls := cuda_calls s @ [CuMemFree p,
                          CuGetErrorString (cu_res (cuda (cuda_calls s) (CuMemFree p)))],
          transport := snd (send_response_error (transport s) zid (seq_num (header msg))
                              IDM_ERROR_CUDA_ERROR
                              (of_int (cu_res (cuda (cuda_calls s) (CuMemFree p))))
                              ''cuMemFree failed'' build_ok)\<rparr>
    \<and> handle_absent (handles (handle_gpu_free cuda s msg build_ok)) h
    \<and> handle_table_lookup (handles (handle_gpu_free cuda s msg build_ok)) zid h = (0, None)
    \<and> total_handles (handles (handle_gpu_free cuda s msg build_ok))
        = total_handles (handles s) - 1
    \<and> total_memory (handles (handle_gpu_free cuda s msg build_ok))
        = total_memory (handles s) - sz
    \<and> handles (handle_gpu_free cuda s msg build_ok) \<noteq> handles s
    \<and> handle_gpu_free_states cuda s msg build_ok =
        [s\<lparr>handles := snd (handle_table_remove (handles s) zid h)\<rparr>,
         s\<lparr>handles := snd (handle_table_remove (handles s) zid h),
           cuda_calls := cuda_calls s @ [CuMemFree p]\<rparr>,
         s\<lparr>handles := snd (handle_table_remove (handles s) zid h),
           cuda_calls := cuda_calls s @ [CuMemFree p,
                           CuGetErrorString (cu_res (cuda (cuda_calls s) (CuMemFree p)))]\<rparr>,
         handle_gpu_free cuda s msg build_ok]
    \<and> handle_absent (snd (handle_table_remove (handles s) zid h)) h
    \<and> (\<forall>c. transport s = Some c \<and> connected c \<and> ring_count (tx_ring c) < 32 \<longrightarrow>
          ring_pending (tx_ring (the (transport (handle_gpu_free cuda s msg True))))
          = ring_pending (tx_ring c) @
              [request_msg (local_zone_id c) zid IDM_RESPONSE_ERROR (next_seq c)
                 (encode_response_error (seq_num (header msg)) IDM_ERROR_CUDA_ERROR
                    (of_int (cu_res (cuda (cuda_calls s) (CuMemFree p)))) ''cuMemFree failed'')])"
proof -
  define es where "es = hash_table (handles s) (hash_handle h)"
  from assms(3,4) obtain e where e: "find_entry es h = Some e" "zone_id e = zid" "ptr e = p"
      "size_bytes e = sz"
    by (auto simp: handle_table_lookup_def lookup_chain_find es_def split: option.splits if_splits)
  have own: "find_entry xs h = Some e \<Longrightarrow> zone_id e = zid \<Longrightarrow> \<exists>xs'. remove_chain xs zid h = (Some e, xs')" for xs
    by (induction xs) (auto split: prod.splits)
  from own [OF e(1,2)] obtain es' where rc: "remove_chain es zid h = (Some e, es')" by blast
  define t' where "t' = (handles s)\<lparr>hash_table := (hash_table (handles s))(hash_handle h := es'),
             total_handles := total_handles (handles s) - 1,
             total_memory := total_memory (handles s) - sz\<rparr>"
  have rm: "handle_table_remove (handles s) zid h = (p, t')"
    using rc e by (simp add: handle_table_remove_def es_def [symmetric] t'_def)
  have gone: "find_entry es' h = None"
    using remove_chain_gone [OF rc] assms(5) by (simp add: es_def)
  have abs: "handle_absent t' h" using gone by (simp add: handle_absent_def t'_def)
  define fin where "fin b = s\<lparr>handles := t',
          cuda_calls := cuda_calls s @ [CuMemFree p,
                          CuGetErrorString (cu_res (cuda (cuda_calls s) (CuMemFree p)))],
          transport := snd (send_response_error (transport s) zid (seq_num (header msg))
                              IDM_ERROR_CUDA_ERROR
                              (of_int (cu_res (cuda (cuda_calls s) (CuMemFree p))))
                              ''cuMemFree failed'' b)\<rparr>" for b
  have sts: "handle_gpu_free_states cuda s msg b =
        [s\<lparr>handles := t'\<rparr>,
         s\<lparr>handles := t', cuda_calls := cuda_calls s @ [CuMemFree p]\<rparr>,
         s\<lparr>handles := t',
           cuda_calls := cuda_calls s @ [CuMemFree p,
                           CuGetErrorString (cu_res (cuda (cuda_calls s) (CuMemFree p)))]\<rparr>,
         fin b]" for b
    using rm assms(1,2,4,6) by (simp add: handle_gpu_free_states_def Let_def fin_def)
  have res: "handle_gpu_free cuda s msg b = fin b" for b
    by (simp add: handle_gpu_free_def sts)
  have ne: "t' \<noteq> handles s"
  proof
    assume "t' = handles s"
    then have "total_handles t' = total_handles (handles s)" by simp
    then show False by (simp add: t'_def)
  qed
  have wire: "ring_pending (tx_ring (the (transport (handle_gpu_free cuda s msg True))))
          = ring_pending (tx_ring c) @
              [request_msg (local_zone_id c) zid IDM_RESPONSE_ERROR (next_seq c)
                 (encode_response_error (seq_num (header msg)) IDM_ERROR_CUDA_ERROR
                    (of_int (cu_res (cuda (cuda_calls s) (CuMemFree p)))) ''cuMemFree failed'')]"
    if c: "transport s = Some c" "connected c" "ring_count (tx_ring c) < 32" for c
    using send_response_error_pending [OF c(2,3), of zid "seq_num (header msg)"
            IDM_ERROR_CUDA_ERROR "of_int (cu_res (cuda (cuda_calls s) (CuMemFree p)))"
            "''cuMemFree failed''"]
    by (simp add: res fin_def c(1))
  have first: "fst (handle_table_remove (handles s) zid h) = p"
    and final: "handle_gpu_free cuda s msg build_ok =
        s\<lparr>handles := snd (handle_table_remove (handles s) zid h),
          cuda_calls := cuda_calls s @ [CuMemFree p,
                          CuGetErrorString (cu_res (cuda (cuda_calls s) (CuMemFree p)))],
          transport := snd (send_response_error (transport s) zid (seq_num (header msg))
                              IDM_ERROR_CUDA_ERROR
                              (of_int (cu_res (cuda (cuda_calls s) (CuMemFree p))))
                              ''cuMemFree failed'' build_ok)\<rparr>"
    and absf: "handle_absent (handles (handle_gpu_free cuda s msg build_ok)) h"
    and lk: "handle_table_lookup (handles (handle_gpu_free cuda s msg build_ok)) zid h = (0, None)"
    and th: "total_handles (handles (handle_gpu_free cuda s msg build_ok))
        = total_handles (handles s) - 1"
    and tm: "total_memory (handles (handle_gpu_free cuda s msg build_ok))
        = total_memory (handles s) - sz"
    and nef: "handles (handle_gpu_free cuda s msg build_ok) \<noteq> handles s"
    and abs0: "handle_absent (snd (handle_table_remove (handles s) zid h)) h"
    using abs ne lookup_not_owned [of t' h zid]
    by (simp_all add: res fin_def rm) (simp_all add: t'_def)
  have stsf: "handle_gpu_free_states cuda s msg build_ok =
        [s\<lparr>handles := snd (handle_table_remove (handles s) zid h)\<rparr>,
         s\<lparr>handles := snd (handle_table_remove (handles s) zid h),
           cuda_calls := cuda_calls s @ [CuMemFree p]\<rparr>,
         s\<lparr>handles := snd (handle_table_remove (handles s) zid h),
           cuda_calls := cuda_calls s @ [CuMemFree p,
                           CuGetErrorString (cu_res (cuda (cuda_calls s) (CuMemFree p)))]\<rparr>,
         handle_gpu_free cuda s msg build_ok]"
    by (simp add: sts res rm)
  show ?thesis
    using wire
    by (intro conjI allI impI)
       (rule first final absf lk th tm nef stsf abs0, (elim conjE, assumption)?)+
qed

theorem free_failure_not_rolled_back_witness:
  "src_zone (header (request_msg USER_ZONE_ID DRIVER_ZONE_ID IDM_GPU_FREE 5 (encode_gpu_free 1)))
     = USER_ZONE_ID
   \<and> handle_table_lookup (handles proxy_one) USER_ZONE_ID 1 = (0x1000, Some 16)
   \<and> cu_res (const_cuda 700 0 [] (cuda_calls proxy_one) (CuMemFree 0x1000)) \<noteq> CUDA_SUCCESS
   \<and> handle_table_stats (handles proxy_one) = (1, 16)
   \<and> map (\<lambda>s. (handle_table_stats (handles s), cuda_calls s))
        (handle_gpu_free_states (const_cuda 700 0 []) proxy_one
           (request_msg USER_ZONE_ID DRIVER_ZONE_ID IDM_GPU_FREE 5 (encode_gpu_free 1)) True)
      = [((0, 0), []),
         ((0, 0), [CuMemFree 0x1000]),
         ((0, 0), [CuMemFree 0x1000, CuGetErrorString 700]),
         ((0, 0), [CuMemFree 0x1000, CuGetErrorString 700])]
   \<and> handle_table_lookup (handles (handle_gpu_free (const_cuda 700 0 []) proxy_one
        (request_msg USER_ZONE_ID DRIVER_ZONE_ID IDM_GPU_FREE 5 (encode_gpu_free 1)) True))
        USER_ZONE_ID 1 = (0, None)
   \<and> map (\<lambda>m. (msg_type (header m), response_error_request_seq (payload m),
                 response_error_error_code (payload m), response_error_cuda_error (payload m)))
        (ring_pending (tx_ring (the (transport (handle_gpu_free (const_cuda 700 0 []) proxy_one
           (request_msg USER_ZONE_ID DRIVER_ZONE_ID IDM_GPU_FREE 5 (encode_gpu_free 1)) True)))))
      = [(IDM_RESPONSE_ERROR, 5, IDM_ERROR_CUDA_ERROR, 700)]"
proof -
  let ?msg = "request_msg USER_ZONE_ID DRIVER_ZONE_ID IDM_GPU_FREE 5 (encode_gpu_free 1)"
  define after where "after = handle_gpu_free (const_cuda 700 0 []) proxy_one ?msg True"
  define sts where "sts = handle_gpu_free_states (const_cuda 700 0 []) proxy_one ?msg True"
  define t' where "t' = snd (handle_table_remove (handles proxy_one) USER_ZONE_ID 1)"
  have z: "src_zone (header ?msg) = USER_ZONE_ID" "seq_num (header ?msg) = 5"
    by (simp_all add: request_msg_def)
  have h: "gpu_free_handle (payload ?msg) = 1"
    using copy_fields(9) [of 1 "[]"] by (simp add: request_msg_def)
  have p: "(0x1000 :: u64) \<noteq> 0" by simp
  have d: "distinct (map handle (hash_table (handles proxy_one) (hash_handle 1)))"
    by (simp add: proxy_one_def proxy_empty_def handle_table_init_def
          handle_table_insert_def Let_def hash_handle_def HASH_TABLE_SIZE_def)
  have e: "cu_res (const_cuda 700 0 [] (cuda_calls proxy_one) (CuMemFree 0x1000)) \<noteq> CUDA_SUCCESS"
    by (simp add: const_cuda_def CUDA_SUCCESS_def)
  have st: "handle_table_stats (handles proxy_one) = (1, 16)"
    by (simp add: handle_table_stats_def proxy_one_def proxy_empty_def handle_table_init_def
          handle_table_insert_def Let_def)
  have cc: "cuda_calls proxy_one = []" by (simp add: proxy_one_def proxy_empty_def)
  have c: "transport proxy_one = Some server_conn \<and> connected server_conn
            \<and> ring_count (tx_ring server_conn) < 32"
    by (simp add: proxy_one_def proxy_empty_def server_conn_def zero_ring_def ring_count_def)
  have em: "ring_pending (tx_ring server_conn) = []"
    by (simp add: server_conn_def zero_ring_def ring_count_def ring_pending_def)
  note T = free_failure_not_rolled_back [of ?msg USER_ZONE_ID 1 proxy_one "0x1000" 16
        "const_cuda 700 0 []" True, OF z(1) h proxy_one_lookup p d e,
        folded after_def sts_def t'_def]
  note c2 = T [THEN conjunct2]
  note c3 = c2 [THEN conjunct2]
  note c4 = c3 [THEN conjunct2]
  note c5 = c4 [THEN conjunct2]
  note c6 = c5 [THEN conjunct2]
  note c7 = c6 [THEN conjunct2]
  note c8 = c7 [THEN conjunct2]
  note c9 = c8 [THEN conjunct2]
  from c2 [THEN conjunct1] have ha: "handles after = t'" "cuda_calls after
      = [CuMemFree 0x1000, CuGetErrorString 700]"
    by (simp_all add: cc const_cuda_def)
  from c5 [THEN conjunct1] c6 [THEN conjunct1] st
  have stats: "handle_table_stats t' = (0, 0)"
    by (simp add: handle_table_stats_def ha(1))
  from c8 [THEN conjunct1] have l: "map (\<lambda>s. (handle_table_stats (handles s), cuda_calls s)) sts
      = [((0, 0), []),
         ((0, 0), [CuMemFree 0x1000]),
         ((0, 0), [CuMemFree 0x1000, CuGetErrorString 700]),
         ((0, 0), [CuMemFree 0x1000, CuGetErrorString 700])]"
    by (simp add: stats ha cc const_cuda_def)
  from c4 [THEN conjunct1] have gone: "handle_table_lookup (handles after) USER_ZONE_ID 1 = (0, None)" .
  from c9 [THEN conjunct2, THEN spec, THEN mp, OF c]
  have w: "map (\<lambda>m. (msg_type (header m), response_error_request_seq (payload m),
                 response_error_error_code (payload m), response_error_cuda_error (payload m)))
        (ring_pending (tx_ring (the (transport after))))
      = [(IDM_RESPONSE_ERROR, 5, IDM_ERROR_CUDA_ERROR, 700)]"
    by (simp add: em z const_cuda_def) (simp add: request_msg_def response_error_fields)
  show ?thesis
    using z(1) e st l gone w by (simp add: proxy_one_lookup flip: after_def sts_def)
qed

text \<open>
  C2. The bounds check of the copy handlers, \<open>offset + size > alloc_size\<close>, is computed
  in \<open>uint64_t\<close>. For a 16-byte allocation at \<open>0x1000\<close>, COPY_H2D with offset
  \<open>0xFFFFFFFFFFFFFFFF\<close> and size 2 has \<open>offset + size\<close> above the allocation size, yet
  the sum wraps to 1, the check passes, \<open>cuMemcpyHtoD\<close> is called on \<open>0xFFF\<close> and the
  response is \<open>RESPONSE_OK\<close>; likewise COPY_D2H with offset \<open>0xFFFFFFFFFFFFFFF8\<close> and
  size 16 calls \<open>cuMemcpyDtoH\<close> on \<open>0xFF8\<close>.
\<close>

theorem copy_bounds_overflow:
  "handle_table_lookup (handles proxy_one) USER_ZONE_ID 1 = (0x1000, Some 16)
   \<and> unat (0xFFFFFFFFFFFFFFFF :: u64) + unat (2 :: u64) > unat (16 :: u64)
   \<and> handle_gpu_copy_h2d (const_cuda CUDA_SUCCESS 0 []) proxy_one
        (request_msg USER_ZONE_ID DRIVER_ZONE_ID IDM_GPU_COPY_H2D 5
           (encode_gpu_copy_h2d 1 0xFFFFFFFFFFFFFFFF 2 @ [0xAA, 0xBB])) True
      = proxy_one
          \<lparr>cuda_calls := [CuMemcpyHtoD 0xFFF [0xAA, 0xBB] 2],
           transport := snd (send_response_ok (transport proxy_one) USER_ZONE_ID 5 0 None 0 True)\<rparr>
   \<and> unat (0xFFFFFFFFFFFFFFF8 :: u64) + unat (16 :: u64) > unat (16 :: u64)
   \<and> handle_gpu_copy_d2h (const_cuda CUDA_SUCCESS 0 []) proxy_one
        (request_msg USER_ZONE_ID DRIVER_ZONE_ID IDM_GPU_COPY_D2H 6
           (encode_gpu_copy_d2h 1 0xFFFFFFFFFFFFFFF8 16)) True True
      = proxy_one
          \<lparr>cuda_calls := [CuMemcpyDtoH 0xFF8 16],
           transport := snd (send_response_ok (transport proxy_one) USER_ZONE_ID 6 0 None 0 True)\<rparr>"
proof -
  have h: "handle_gpu_copy_h2d (const_cuda CUDA_SUCCESS 0 []) proxy_one
        (request_msg USER_ZONE_ID DRIVER_ZONE_ID IDM_GPU_COPY_H2D 5
           (encode_gpu_copy_h2d 1 0xFFFFFFFFFFFFFFFF 2 @ [0xAA, 0xBB])) True
      = proxy_one
          \<lparr>cuda_calls := [CuMemcpyHtoD 0xFFF [0xAA, 0xBB] 2],
           transport := snd (send_response_ok (transport proxy_one) USER_ZONE_ID 5 0 None 0 True)\<rparr>"
    by (simp add: handle_gpu_copy_h2d_def Let_def request_msg_def copy_fields proxy_one_lookup
          sizeof_idm_gpu_copy_h2d_def const_cuda_def)
       (simp add: proxy_one_def proxy_empty_def)
  have d: "handle_gpu_copy_d2h (const_cuda CUDA_SUCCESS 0 []) proxy_one
        (request_msg USER_ZONE_ID DRIVER_ZONE_ID IDM_GPU_COPY_D2H 6
           (encode_gpu_copy_d2h 1 0xFFFFFFFFFFFFFFF8 16)) True True
      = proxy_one
          \<lparr>cuda_calls := [CuMemcpyDtoH 0xFF8 16],
           transport := snd (send_response_ok (transport proxy_one) USER_ZONE_ID 6 0 None 0 True)\<rparr>"
    using copy_fields(4-6) [of 1 "0xFFFFFFFFFFFFFFF8" 16 "[]"]
    by (simp add: handle_gpu_copy_d2h_def Let_def request_msg_def proxy_one_lookup const_cuda_def)
       (simp add: proxy_one_def proxy_empty_def)
  show ?thesis using h d by (simp add: proxy_one_lookup)
qed

text \<open>
  C3. A successful COPY_D2H of 4 bytes from the 16-byte allocation: the backend copy
  is called for the 4 bytes, and the single message left in the transmit ring is a
  \<open>RESPONSE_OK\<close> for request 5 whose \<open>data_len\<close> is 0 and whose payload is the 24
  bytes of \<open>struct idm_response_ok\<close>, with no device byte after them.
\<close>

theorem d2h_response_without_data:
  "cuda_calls (handle_gpu_copy_d2h (const_cuda CUDA_SUCCESS 0 [1, 2, 3, 4]) proxy_one
        (request_msg USER_ZONE_ID DRIVER_ZONE_ID IDM_GPU_COPY_D2H 5 (encode_gpu_copy_d2h 1 0 4))
        True True) = [CuMemcpyDtoH 0x1000 4]
   \<and> map (\<lambda>m. (msg_type (header m), response_ok_request_seq (payload m),
                 response_ok_data_len (payload m), length (payload m)))
        (ring_pending (tx_ring (the (transport
          (handle_gpu_copy_d2h (const_cuda CUDA_SUCCESS 0 [1, 2, 3, 4]) proxy_one
            (request_msg USER_ZONE_ID DRIVER_ZONE_ID IDM_GPU_COPY_D2H 5 (encode_gpu_copy_d2h 1 0 4))
            True True)))))
      = [(IDM_RESPONSE_OK, 5, 0, 24)]"
proof -
  let ?msg = "request_msg USER_ZONE_ID DRIVER_ZONE_ID IDM_GPU_COPY_D2H 5 (encode_gpu_copy_d2h 1 0 4)"
  have f: "copy_d2h_src_handle (payload ?msg) = 1" "copy_d2h_src_offset (payload ?msg) = 0"
      "copy_d2h_size (payload ?msg) = 4" "src_zone (header ?msg) = USER_ZONE_ID"
      "seq_num (header ?msg) = 5"
    using copy_fields(4-6) [of 1 0 4 "[]"] by (simp_all add: request_msg_def)
  have l: "handle_table_lookup (handles proxy_one) (src_zone (header ?msg))
             (copy_d2h_src_handle (payload ?msg)) = (0x1000, Some 16)"
    by (simp add: f proxy_one_lookup)
  have s: "handle_gpu_copy_d2h (const_cuda CUDA_SUCCESS 0 [1, 2, 3, 4]) proxy_one ?msg True True
      = proxy_one\<lparr>cuda_calls := cuda_calls proxy_one @ [CuMemcpyDtoH 0x1000 4],
          transport := snd (send_response_ok (transport proxy_one) USER_ZONE_ID 5 0 None 0 True)\<rparr>"
    using d2h_success [OF l, of "const_cuda CUDA_SUCCESS 0 [1, 2, 3, 4]" True]
    by (simp add: f const_cuda_def)
  have c: "connected server_conn" "ring_count (tx_ring server_conn) < 32"
      "ring_pending (tx_ring server_conn) = []"
    by (simp_all add: server_conn_def zero_ring_def ring_count_def ring_pending_def)
  have t: "transport proxy_one = Some server_conn" "cuda_calls proxy_one = []"
    by (simp_all add: proxy_one_def proxy_empty_def)
  have len: "length (encode_response_ok 5 0 0 0) = 24" by (rule response_ok_fields)
  show ?thesis
    using response_ok_fields(1,4) [of 5 0 0 0 "[]"]
    by (simp add: s t send_response_ok_pending [OF c(1,2)] c(3) len)
       (simp add: request_msg_def len)
qed

section \<open>Properties of the user-side library\<close>

lemma rx_in_slots_slot:
  assumes "rx_in_slots (Some c)"
  shows "\<not> (idm_message_valid (entries (rx_ring c) (w mod IDM_RING_SIZE))
           \<and> idm_message_size (entries (rx_ring c) (w mod IDM_RING_SIZE)) > sizeof_idm_ring_entry)"
proof -
  have "unat (w mod IDM_RING_SIZE) < 32"
    using unat_slot_index [of w 0] by simp
  moreover have "of_nat (unat (w mod IDM_RING_SIZE)) = w mod IDM_RING_SIZE" by simp
  ultimately show ?thesis
    using assms unfolding rx_in_slots_def list_all_iff
    by (metis (no_types, lifting) atLeastLessThan_iff option.simps(5) set_upt zero_le)
qed

lemma idm_recv_returns: "0 \<le> t \<Longrightarrow> rx_in_slots g \<Longrightarrow> idm_recv g t e m \<noteq> None"
proof (cases g)
  case None
  then show ?thesis by (simp add: idm_recv_def)
next
  case (Some c)
  assume "0 \<le> t" "rx_in_slots g"
  with Some rx_in_slots_slot [of c "consumer (rx_ring c)"] show ?thesis
    by (auto simp: idm_recv_def Let_def rx_sem_wait_def split: option.splits sem_outcome.splits)
qed

lemma idm_recv_keeps_slots:
  "idm_recv g t e m = Some (ret, resp, g') \<Longrightarrow> rx_in_slots g \<Longrightarrow> rx_in_slots g'"
  by (auto simp: idm_recv_def Let_def rx_in_slots_def
        split: option.splits sem_outcome.splits if_splits)

lemma idm_send_keeps_slots: "idm_send g msg = (ret, g') \<Longrightarrow> rx_in_slots g \<Longrightarrow> rx_in_slots g'"
  by (auto simp: idm_send_def Let_def rx_in_slots_def split: option.splits if_splits)

lemma idm_build_message_keeps_slots:
  "idm_build_message g dst ty pl n b = (msg, g') \<Longrightarrow> rx_in_slots g \<Longrightarrow> rx_in_slots g'"
  by (auto simp: idm_build_message_def Let_def rx_in_slots_def split: option.splits if_splits)

lemma idm_recv_msg_written:
  "0 \<le> t \<Longrightarrow> idm_recv g t e m = Some (ret, resp, g') \<Longrightarrow> 0 \<le> ret \<Longrightarrow> resp \<noteq> None"
  by (auto simp: idm_recv_def Let_def rx_sem_wait_def ENOTCONN_def EAGAIN_def EINVAL_def ENOMEM_def
        split: option.splits sem_outcome.splits if_splits)

text \<open>
  The calls of the library return when the messages that the peer leaves in the
  receive ring lie within their slots.
\<close>

lemma wait_for_response_returns:
  assumes "\<And>i g. rx_in_slots g \<Longrightarrow> rx_in_slots (peer i g)"
  shows "rx_in_slots g \<Longrightarrow> wait_for_response peer mem req_seq i n g \<noteq> None"
proof (induction n arbitrary: i g)
  case 0
  then show ?case by simp
next
  case (Suc n)
  from Suc.prems have p: "rx_in_slots (peer i g)" by (rule assms)
  obtain ret resp g' where r: "idm_recv (peer i g) 1000 whole_second_env (mem i) = Some (ret, resp, g')"
    using idm_recv_returns [of 1000 "peer i g" whole_second_env "mem i"] p
    by (cases "idm_recv (peer i g) 1000 whole_second_env (mem i)") auto
  from idm_recv_keeps_slots [OF r p] have g': "rx_in_slots g'" .
  show ?case
  proof (cases "ret < 0")
    case True
    with r Suc.IH [OF g'] show ?thesis by simp
  next
    case False
    with idm_recv_msg_written [OF _ r] obtain m where "resp = Some m" by auto
    with r False Suc.IH [OF g'] show ?thesis by (simp split: option.splits)
  qed
qed

lemma send_and_wait_returns:
  assumes "\<And>i g. rx_in_slots g \<Longrightarrow> rx_in_slots (peer i g)" and "rx_in_slots g"
  shows "send_and_wait peer mem g msg \<noteq> None"
proof (cases "idm_send g msg")
  case (Pair ret g')
  from idm_send_keeps_slots [OF Pair assms(2)] have "rx_in_slots g'" .
  from wait_for_response_returns [of peer g' mem "seq_num (header msg)" 0 10, OF assms(1) this]
  show ?thesis using Pair by (simp add: send_and_wait_def Let_def)
qed

lemma cuMemcpyDtoH_returns:
  assumes "\<And>i g. rx_in_slots g \<Longrightarrow> rx_in_slots (peer i g)" and "rx_in_slots (user_conn s)"
  shows "cuMemcpyDtoH peer mem b s dst src n \<noteq> None"
proof -
  have "send_and_wait peer mem g msg \<noteq> None"
    if "idm_build_message (user_conn s) DRIVER_ZONE_ID IDM_GPU_COPY_D2H
          (Some (encode_gpu_copy_d2h src 0 n)) sizeof_idm_gpu_copy_d2h b = (Some msg, g)" for g msg
    using send_and_wait_returns [OF assms(1) idm_build_message_keeps_slots [OF that assms(2)]] .
  then show ?thesis
    by (auto simp: cuMemcpyDtoH_def Let_def split: option.splits prod.splits)
qed

lemma idm_send_tail:
  assumes "connected c" and "ring_count (tx_ring c) < 32"
    and "idm_message_valid m" and "idm_message_size m \<le> sizeof_idm_ring_entry"
    and "unat (payload_len (header m)) \<le> length (payload m)"
  shows "\<exists>c'. idm_send (Some c) m = (0, Some c') \<and> connected c'
    \<and> ring_pending (tx_ring c') = ring_pending (tx_ring c) @ [ring_msg_copy m]
    \<and> ring_count (tx_ring c') = Suc (ring_count (tx_ring c))
    \<and> tx_sem c' = tx_sem c + 1 \<and> rx_ring c' = rx_ring c \<and> rx_sem c' = rx_sem c
    \<and> next_seq c' = next_seq c \<and> local_zone_id c' = local_zone_id c"
proof -
  have nf: "\<not> (IDM_RING_SIZE \<le> producer (tx_ring c) - consumer (tx_ring c))"
    using assms(2) by (simp add: ring_not_full_iff ring_count_def)
  have cnt: "unat (producer (tx_ring c) + 1 - consumer (tx_ring c)) = Suc (ring_count (tx_ring c))"
    using unat_diff_succ [of "producer (tx_ring c)" "consumer (tx_ring c)"] assms(2)
    by (simp add: ring_count_def)
  show ?thesis
    using idm_send_ok [OF assms(1,3,4) nf] ring_pending_sent [OF assms(2,5)] assms(1) cnt
    by (simp add: ring_count_def)
qed

lemma idm_recv_head:
  assumes "connected c" and "0 < rx_sem c"
    and "ring_pending (rx_ring c) = m # q" and "idm_message_valid m"
    and "idm_message_size m \<le> sizeof_idm_ring_entry"
    and "0 < t \<Longrightarrow> timespec_valid (now_nsec i) t"
  shows "\<exists>c'. idm_recv (Some c) t i True = Some (0, Some m, Some c') \<and> connected c'
    \<and> ring_pending (rx_ring c') = q \<and> rx_sem c' = rx_sem c - 1
    \<and> tx_ring c' = tx_ring c \<and> tx_sem c' = tx_sem c
    \<and> next_seq c' = next_seq c \<and> local_zone_id c' = local_zone_id c"
proof -
  define r where "r = rx_ring c"
  define slot where "slot = entries r (consumer r mod IDM_RING_SIZE)"
  have ne: "consumer r \<noteq> producer r"
    using ring_pending_nonempty [of r m q] assms(3) by (simp add: r_def)
  from ring_pending_received [OF ne] assms(3)
  have hd: "m = ring_msg_copy slot" and tl: "ring_pending (r\<lparr>consumer := consumer r + 1\<rparr>) = q"
    by (simp_all add: r_def slot_def)
  from assms(4,5) hd have v: "idm_message_valid slot"
    and f: "idm_message_size slot \<le> sizeof_idm_ring_entry"
    by (simp_all add: valid_ring_msg_copy size_ring_msg_copy)
  have sem: "rx_sem_wait (rx_sem c) t i = Acquired (rx_sem c - 1)"
    using assms(2,6) by (simp add: rx_sem_wait_pos)
  show ?thesis
    using idm_recv_ok [OF assms(1) sem] ne v f tl assms(1)
    by (simp add: r_def slot_def hd)
qed

text \<open>
  C4. A \<open>RESPONSE_ERROR\<close> whose \<open>request_seq\<close> is the outstanding one ends the loop of
  \<open>send_and_wait\<close>, which returns \<open>CUDA_ERROR_OUT_OF_MEMORY\<close> for
  \<open>IDM_ERROR_OUT_OF_MEMORY\<close>, \<open>CUDA_ERROR_INVALID_HANDLE\<close> for
  \<open>IDM_ERROR_INVALID_HANDLE\<close> and \<open>CUDA_ERROR_INVALID_VALUE\<close> for every other code;
  \<open>IDM_ERROR_PERMISSION_DENIED\<close> is one of the other codes.
\<close>

theorem error_translation:
  assumes "msg_type (header resp) = IDM_RESPONSE_ERROR"
    and "response_error_request_seq (payload resp) = req_seq"
    and "unat sizeof_idm_response_error \<le> length (payload resp)"
  shows "check_response resp req_seq =
      Some (if response_error_error_code (payload resp) = IDM_ERROR_OUT_OF_MEMORY
              then CUDA_ERROR_OUT_OF_MEMORY
            else if response_error_error_code (payload resp) = IDM_ERROR_INVALID_HANDLE
              then CUDA_ERROR_INVALID_HANDLE
            else CUDA_ERROR_INVALID_VALUE, None)
    \<and> (response_error_error_code (payload resp) = IDM_ERROR_PERMISSION_DENIED
         \<longrightarrow> check_response resp req_seq = Some (CUDA_ERROR_INVALID_VALUE, None))
    \<and> (\<forall>peer mem i n g g'.
          idm_recv (peer i g) 1000 whole_second_env (mem i) = Some (0, Some resp, g')
          \<longrightarrow> wait_for_response peer mem req_seq i (Suc n) g =
                Some (map_idm_error (response_error_error_code (payload resp)), None, g'))"
  using assms
  by (auto simp: check_response_def map_idm_error_def IDM_RESPONSE_ERROR_def IDM_RESPONSE_OK_def
        IDM_ERROR_PERMISSION_DENIED_def IDM_ERROR_OUT_OF_MEMORY_def IDM_ERROR_INVALID_HANDLE_def)

theorem error_translation_witness:
  "msg_type (header (request_msg DRIVER_ZONE_ID USER_ZONE_ID IDM_RESPONSE_ERROR 9
       (encode_response_error 5 IDM_ERROR_OUT_OF_MEMORY 0 ''Failed to create handle'')))
     = IDM_RESPONSE_ERROR
   \<and> check_response (request_msg DRIVER_ZONE_ID USER_ZONE_ID IDM_RESPONSE_ERROR 9
       (encode_response_error 5 IDM_ERROR_OUT_OF_MEMORY 0 ''Failed to create handle'')) 5
     = Some (CUDA_ERROR_OUT_OF_MEMORY, None)"
proof -
  let ?r = "request_msg DRIVER_ZONE_ID USER_ZONE_ID IDM_RESPONSE_ERROR 9
       (encode_response_error 5 IDM_ERROR_OUT_OF_MEMORY 0 ''Failed to create handle'')"
  have t: "msg_type (header ?r) = IDM_RESPONSE_ERROR" by (simp add: request_msg_def)
  have s: "response_error_request_seq (payload ?r) = 5"
    by (simp add: request_msg_def response_error_fields)
  have l: "unat sizeof_idm_response_error \<le> length (payload ?r)"
    by (simp add: request_msg_def response_error_fields sizeof_idm_response_error_def)
  have c: "response_error_error_code (payload ?r) = IDM_ERROR_OUT_OF_MEMORY"
    by (simp add: request_msg_def response_error_fields)
  show ?thesis using error_translation [OF t s l] t by (simp add: c)
qed

theorem error_translation_counterexample:
  "msg_type (header (request_msg DRIVER_ZONE_ID USER_ZONE_ID IDM_RESPONSE_ERROR 9
       (encode_response_error 5 IDM_ERROR_PERMISSION_DENIED 0 ''Permission denied'')))
     = IDM_RESPONSE_ERROR
   \<and> response_error_request_seq (payload (request_msg DRIVER_ZONE_ID USER_ZONE_ID IDM_RESPONSE_ERROR 9
       (encode_response_error 5 IDM_ERROR_PERMISSION_DENIED 0 ''Permission denied''))) = 5
   \<and> response_error_error_code (payload (request_msg DRIVER_ZONE_ID USER_ZONE_ID IDM_RESPONSE_ERROR 9
       (encode_response_error 5 IDM_ERROR_PERMISSION_DENIED 0 ''Permission denied'')))
     = IDM_ERROR_PERMISSION_DENIED
   \<and> check_response (request_msg DRIVER_ZONE_ID USER_ZONE_ID IDM_RESPONSE_ERROR 9
       (encode_response_error 5 IDM_ERROR_PERMISSION_DENIED 0 ''Permission denied'')) 5
     = Some (CUDA_ERROR_INVALID_VALUE, None)
   \<and> CUDA_ERROR_INVALID_VALUE \<noteq> CUDA_ERROR_INVALID_HANDLE"
  by (simp add: request_msg_def response_error_fields check_response_def map_idm_error_def
        IDM_RESPONSE_ERROR_def IDM_RESPONSE_OK_def IDM_ERROR_PERMISSION_DENIED_def
        IDM_ERROR_OUT_OF_MEMORY_def IDM_ERROR_INVALID_HANDLE_def
        CUDA_ERROR_INVALID_VALUE_def CUDA_ERROR_INVALID_HANDLE_def)

text \<open>
  One \<open>cuMemcpyDtoH\<close> of 4 bytes from handle 1 into a 5-byte buffer, with the driver
  zone answering from a state where the user zone owns handle 1 and the device holds
  bytes 1, 2, 3, 4.
\<close>

lemma d2h_end_to_end:
  "cuMemcpyDtoH (\<lambda>i. if i = 0 then driver_peer (const_cuda CUDA_SUCCESS 0 [1, 2, 3, 4]) proxy_one
                       else (\<lambda>g. g))
      (\<lambda>i. True) True \<lparr>initialized = True, user_conn = Some client_conn\<rparr>
      (Some [9, 9, 9, 9, 9]) 1 4
    = Some (CUDA_SUCCESS, Some [0, 0, 0, 0, 9],
            snd (snd (the (cuMemcpyDtoH
              (\<lambda>i. if i = 0 then driver_peer (const_cuda CUDA_SUCCESS 0 [1, 2, 3, 4]) proxy_one
                       else (\<lambda>g. g))
              (\<lambda>i. True) True \<lparr>initialized = True, user_conn = Some client_conn\<rparr>
              (Some [9, 9, 9, 9, 9]) 1 4))))"
proof -
  let ?cuda = "const_cuda CUDA_SUCCESS 0 [1, 2, 3, 4]"
  let ?peer = "\<lambda>i::nat. if i = 0 then driver_peer ?cuda proxy_one else (\<lambda>g. g)"
  let ?enc = "encode_gpu_copy_d2h 1 0 4"
  let ?msg = "request_msg USER_ZONE_ID DRIVER_ZONE_ID IDM_GPU_COPY_D2H 1 ?enc"
  let ?resp = "request_msg DRIVER_ZONE_ID USER_ZONE_ID IDM_RESPONSE_OK 1 (encode_response_ok 1 0 0 0)"
  define cu1 where "cu1 = client_conn\<lparr>next_seq := 2\<rparr>"
  have b: "idm_build_message (Some client_conn) DRIVER_ZONE_ID IDM_GPU_COPY_D2H
         (Some ?enc) sizeof_idm_gpu_copy_d2h True = (Some ?msg, Some cu1)"
    using build_request [of ?enc sizeof_idm_gpu_copy_d2h client_conn DRIVER_ZONE_ID IDM_GPU_COPY_D2H]
    by (simp add: copy_fields sizeof_idm_gpu_copy_d2h_def cu1_def) (simp add: client_conn_def)
  have mok: "idm_message_valid ?msg" "idm_message_size ?msg \<le> sizeof_idm_ring_entry"
      "unat (payload_len (header ?msg)) \<le> length (payload ?msg)" "ring_msg_copy ?msg = ?msg"
    using request_msg_ok [of ?enc USER_ZONE_ID DRIVER_ZONE_ID IDM_GPU_COPY_D2H 1]
      copy_fields(8) [of 1 0 4]
    by (simp_all, simp add: request_msg_def)
  have rok: "idm_message_valid ?resp" "idm_message_size ?resp \<le> sizeof_idm_ring_entry"
    using request_msg_ok(1,2) [of "encode_response_ok 1 0 0 0"]
    by (simp_all add: response_ok_fields)
  have cu1: "connected cu1" "ring_count (tx_ring cu1) < 32" "ring_pending (tx_ring cu1) = []"
      "tx_sem cu1 = 0" "rx_ring cu1 = zero_ring" "rx_sem cu1 = 0"
    by (simp_all add: cu1_def client_conn_def zero_ring_def ring_count_def ring_pending_def)
  from idm_send_tail [OF cu1(1,2) mok(1,2,3)]
  obtain cu2 where cu2: "idm_send (Some cu1) ?msg = (0, Some cu2)" "connected cu2"
      "ring_pending (tx_ring cu2) = [?msg]" "tx_sem cu2 = 1" "rx_ring cu2 = zero_ring"
      "rx_sem cu2 = 0"
    by (auto simp: cu1 mok(4))
  define dc1 where "dc1 = server_conn\<lparr>rx_ring := tx_ring cu2, rx_sem := tx_sem cu2,
                                          tx_ring := rx_ring cu2, tx_sem := rx_sem cu2\<rparr>"
  have dc1: "connected dc1" "0 < rx_sem dc1" "ring_pending (rx_ring dc1) = ?msg # []"
      "tx_ring dc1 = zero_ring" "tx_sem dc1 = 0" "next_seq dc1 = 1"
      "local_zone_id dc1 = DRIVER_ZONE_ID" "rx_sem dc1 = 1"
    by (simp_all add: dc1_def server_conn_def cu2)
  have tv: "timespec_valid (now_nsec whole_second_env) 1000"
    by (simp add: timespec_valid_def whole_second_env_def)
  from idm_recv_head [OF dc1(1,2,3) mok(1,2) tv]
  obtain dc2 where dc2: "idm_recv (Some dc1) 1000 whole_second_env True = Some (0, Some ?msg, Some dc2)"
      "connected dc2" "ring_pending (rx_ring dc2) = []" "rx_sem dc2 = 0"
      "tx_ring dc2 = zero_ring" "tx_sem dc2 = 0" "next_seq dc2 = 1"
      "local_zone_id dc2 = DRIVER_ZONE_ID"
    by (auto simp: dc1)
  have f: "copy_d2h_src_handle (payload ?msg) = 1" "copy_d2h_src_offset (payload ?msg) = 0"
      "copy_d2h_size (payload ?msg) = 4" "src_zone (header ?msg) = USER_ZONE_ID"
      "seq_num (header ?msg) = 1" "msg_type (header ?msg) = IDM_GPU_COPY_D2H"
    using copy_fields(4-6) [of 1 0 4 "[]"] by (simp_all add: request_msg_def)
  define d1 where "d1 = proxy_one\<lparr>transport := Some dc2\<rparr>"
  have l: "handle_table_lookup (handles d1) (src_zone (header ?msg))
             (copy_d2h_src_handle (payload ?msg)) = (0x1000, Some 16)"
    by (simp add: f proxy_one_lookup d1_def)
  have h: "handle_gpu_copy_d2h ?cuda d1 ?msg True True
      = d1\<lparr>cuda_calls := cuda_calls d1 @ [CuMemcpyDtoH 0x1000 4],
          transport := snd (send_response_ok (transport d1) USER_ZONE_ID 1 0 None 0 True)\<rparr>"
  proof -
    have "handle_gpu_copy_d2h ?cuda d1 ?msg True True
      = d1\<lparr>cuda_calls := cuda_calls d1 @
              [CuMemcpyDtoH (0x1000 + copy_d2h_src_offset (payload ?msg))
                 (copy_d2h_size (payload ?msg))],
          transport := snd (send_response_ok (transport d1) (src_zone (header ?msg))
                              (seq_num (header ?msg)) 0 None 0 True)\<rparr>"
      by (rule d2h_success [OF l]) (simp_all add: f const_cuda_def)
    then show ?thesis by (simp add: f)
  qed
  have disp: "dispatch ?cuda d1 ?msg True True True = handle_gpu_copy_d2h ?cuda d1 ?msg True True"
    unfolding dispatch_def f(6)
    by (simp add: IDM_GPU_COPY_D2H_def IDM_GPU_ALLOC_def IDM_GPU_FREE_def IDM_GPU_COPY_H2D_def
          IDM_GPU_SYNC_def)
  have zr: "ring_count zero_ring < 32" "ring_pending zero_ring = []"
    by (simp_all add: zero_ring_def ring_count_def ring_pending_def)
  have z: "ring_count (tx_ring dc2) < 32" "ring_pending (tx_ring dc2) = []"
    by (simp_all add: dc2 zr)
  define dc3 where "dc3 = the (snd (send_response_ok (Some dc2) USER_ZONE_ID 1 0 None 0 True))"
  have dc3: "snd (send_response_ok (Some dc2) USER_ZONE_ID 1 0 None 0 True) = Some dc3"
      "connected dc3" "tx_sem dc3 = 1" "rx_ring dc3 = rx_ring dc2" "rx_sem dc3 = 0"
    by (simp_all add: dc3_def send_response_ok_sent [OF dc2(2) z(1)] dc2)
  have dc3p: "ring_pending (tx_ring dc3) = [?resp]"
    unfolding dc3_def send_response_ok_pending [OF dc2(2) z(1)] z(2) dc2(7,8) by simp
  have it: "run_server_iteration ?cuda (proxy_one\<lparr>transport := Some dc1\<rparr>) True True True True
      = Some (d1\<lparr>cuda_calls := cuda_calls d1 @ [CuMemcpyDtoH 0x1000 4], transport := Some dc3\<rparr>)"
    by (simp add: run_server_iteration_def dc2(1) disp [unfolded d1_def] h [unfolded d1_def] dc3(1)
          d1_def)
  define cu3 where "cu3 = cu2\<lparr>tx_ring := rx_ring dc3, tx_sem := rx_sem dc3,
                                rx_ring := tx_ring dc3, rx_sem := tx_sem dc3\<rparr>"
  have pr: "driver_peer ?cuda proxy_one (Some cu2) = Some cu3"
    using it by (simp add: driver_peer_def Let_def cu3_def dc1_def proxy_one_def proxy_empty_def)
  have cu3: "connected cu3" "0 < rx_sem cu3" "ring_pending (rx_ring cu3) = ?resp # []"
    by (simp_all add: cu3_def cu2 dc3 dc3p)
  from idm_recv_head [OF cu3 rok tv]
  obtain cu4 where cu4: "idm_recv (Some cu3) 1000 whole_second_env True = Some (0, Some ?resp, Some cu4)"
    by auto
  have chk: "check_response ?resp 1 = Some (CUDA_SUCCESS, Some 0)"
    using response_ok_fields(1,2) [of 1 0 0 0 "[]"]
    by (simp add: check_response_def request_msg_def)
  have ten: "(10 :: nat) = Suc 9" by simp
  have w: "wait_for_response ?peer (\<lambda>i. True) 1 0 10 (Some cu2) = Some (CUDA_SUCCESS, Some 0, Some cu4)"
    unfolding ten by (subst wait_for_response.simps(2)) (simp add: pr cu4 chk)
  have sw: "send_and_wait ?peer (\<lambda>i. True) (Some cu1) ?msg = Some (CUDA_SUCCESS, Some 0, Some cu4)"
    by (simp add: send_and_wait_def Let_def cu2(1) f w)
  have r4: "replicate 4 (0 :: u8) = [0, 0, 0, 0]"
    by (simp add: eval_nat_numeral)
  show ?thesis
    by (simp add: cuMemcpyDtoH_def Let_def b sw r4)
qed

text \<open>
  C10. When \<open>cuMemcpyDtoH\<close> returns \<open>CUDA_SUCCESS\<close>, the destination was a non-null
  buffer and its first \<open>ByteCount\<close> bytes are now zero, the rest unchanged. On the
  driver side the state after \<open>handle_gpu_copy_d2h\<close>, and with it the response, is
  the same for two backends that return the same result codes, whatever bytes they
  copy from the device.
\<close>

theorem d2h_returns_zeros:
  assumes "cuMemcpyDtoH peer mem build_ok s dstHost srcDevice ByteCount
             = Some (CUDA_SUCCESS, dstHost', s')"
  shows "(\<exists>buf. dstHost = Some buf
            \<and> dstHost' = Some (replicate (unat ByteCount) 0 @ drop (unat ByteCount) buf))
    \<and> take (unat ByteCount) (the dstHost') = replicate (unat ByteCount) 0
    \<and> (\<forall>cuda cuda' d msg stage_ok b.
          (\<forall>calls c. cu_res (cuda calls c) = cu_res (cuda' calls c))
          \<longrightarrow> handle_gpu_copy_d2h cuda d msg stage_ok b
              = handle_gpu_copy_d2h cuda' d msg stage_ok b)"
proof -
  have a: "\<exists>buf. dstHost = Some buf
            \<and> dstHost' = Some (replicate (unat ByteCount) 0 @ drop (unat ByteCount) buf)"
    using assms
    by (auto simp: cuMemcpyDtoH_def Let_def CUDA_SUCCESS_def CUDA_ERROR_NOT_INITIALIZED_def
          CUDA_ERROR_INVALID_VALUE_def CUDA_ERROR_OUT_OF_MEMORY_def
          split: if_splits option.splits prod.splits)
  then have b: "take (unat ByteCount) (the dstHost') = replicate (unat ByteCount) 0"
    by auto
  show ?thesis using a b d2h_ignores_data by blast
qed

theorem d2h_returns_zeros_witness:
  "map_option (\<lambda>r. (fst r, fst (snd r)))
     (cuMemcpyDtoH (\<lambda>i. if i = 0 then driver_peer (const_cuda CUDA_SUCCESS 0 [1, 2, 3, 4]) proxy_one
                       else (\<lambda>g. g))
        (\<lambda>i. True) True \<lparr>initialized = True, user_conn = Some client_conn\<rparr>
        (Some [9, 9, 9, 9, 9]) 1 4)
     = Some (CUDA_SUCCESS, Some [0, 0, 0, 0, 9])
   \<and> take 4 [0, 0, 0, 0, 9 :: u8] = replicate 4 0
   \<and> handle_gpu_copy_d2h (const_cuda CUDA_SUCCESS 0 [1, 2, 3, 4]) proxy_one
        (request_msg USER_ZONE_ID DRIVER_ZONE_ID IDM_GPU_COPY_D2H 1 (encode_gpu_copy_d2h 1 0 4))
        True True
     = handle_gpu_copy_d2h (const_cuda CUDA_SUCCESS 0 [5, 6, 7, 8]) proxy_one
        (request_msg USER_ZONE_ID DRIVER_ZONE_ID IDM_GPU_COPY_D2H 1 (encode_gpu_copy_d2h 1 0 4))
        True True"
proof -
  note T = d2h_returns_zeros [OF d2h_end_to_end]
  have r: "map_option (\<lambda>r. (fst r, fst (snd r)))
     (cuMemcpyDtoH (\<lambda>i. if i = 0 then driver_peer (const_cuda CUDA_SUCCESS 0 [1, 2, 3, 4]) proxy_one
                       else (\<lambda>g. g))
        (\<lambda>i. True) True \<lparr>initialized = True, user_conn = Some client_conn\<rparr>
        (Some [9, 9, 9, 9, 9]) 1 4)
     = Some (CUDA_SUCCESS, Some [0, 0, 0, 0, 9])"
    by (subst d2h_end_to_end) simp
  from T [THEN conjunct2, THEN conjunct1]
  have z: "take 4 [0, 0, 0, 0, 9 :: u8] = replicate 4 0" by simp
  have c: "\<forall>calls c. cu_res (const_cuda CUDA_SUCCESS 0 [1, 2, 3, 4] calls c)
                   = cu_res (const_cuda CUDA_SUCCESS 0 [5, 6, 7, 8] calls c)"
    by (simp add: const_cuda_def)
  from T [THEN conjunct2, THEN conjunct2] c
  have h: "handle_gpu_copy_d2h (const_cuda CUDA_SUCCESS 0 [1, 2, 3, 4]) proxy_one
        (request_msg USER_ZONE_ID DRIVER_ZONE_ID IDM_GPU_COPY_D2H 1 (encode_gpu_copy_d2h 1 0 4))
        True True
     = handle_gpu_copy_d2h (const_cuda CUDA_SUCCESS 0 [5, 6, 7, 8]) proxy_one
        (request_msg USER_ZONE_ID DRIVER_ZONE_ID IDM_GPU_COPY_D2H 1 (encode_gpu_copy_d2h 1 0 4))
        True True"
    by blast
  show ?thesis using r z h by simp
qed

end
